theory Spec2Isabelle
  imports Main "HOL-Library.Char_ord" "HOL-Library.List_Lexorder"
begin

section \<open>Attribute values, JSON, diagnostics and HTTP\<close>

text \<open>
  A framework attribute value (\<^verbatim>\<open>types.String\<close>, \<^verbatim>\<open>types.Int64\<close>, \<^verbatim>\<open>types.Bool\<close>,
  \<^verbatim>\<open>types.List\<close>) is null, unknown or known. The \<^verbatim>\<open>Value...\<close> accessors return
  Go's zero value for a null or unknown attribute.
\<close>

datatype 'a tfval = Null | Unknown | Known 'a

fun IsNull :: "'a tfval \<Rightarrow> bool" where
  "IsNull Null = True"
| "IsNull _ = False"

fun ValueString :: "string tfval \<Rightarrow> string" where
  "ValueString (Known s) = s"
| "ValueString _ = []"

fun ValueInt64 :: "int tfval \<Rightarrow> int" where
  "ValueInt64 (Known i) = i"
| "ValueInt64 _ = 0"

fun ValueBool :: "bool tfval \<Rightarrow> bool" where
  "ValueBool (Known b) = b"
| "ValueBool _ = False"

text \<open>\<^verbatim>\<open>List.Elements()\<close>: the elements of a known list, none for a null or unknown one.\<close>

fun Elements :: "'a list tfval \<Rightarrow> 'a list" where
  "Elements (Known xs) = xs"
| "Elements _ = []"

text \<open>
  An \<^verbatim>\<open>attr.Value\<close> as the resources meet it: a string, an integer, or an object with
  its attribute map (an association list; a null object has no attributes).
\<close>

datatype attr =
    StringAttr "string tfval"
  | Int64Attr "int tfval"
  | ObjectAttr "(string \<times> attr) list"

text \<open>
  JSON values. An object keeps its members in order; Go's decoder into a
  \<^verbatim>\<open>map[string]interface{}\<close> lets a later duplicate key overwrite an earlier one,
  which \<open>field\<close> reproduces.
\<close>

datatype json =
    JNull
  | JBool bool
  | JNum int
  | JStr string
  | JArr "json list"
  | JObj "(string \<times> json) list"

definition field :: "(string \<times> json) list \<Rightarrow> string \<Rightarrow> json option" where
  "field kvs k = map_of (rev kvs) k"

fun kindOf :: "json \<Rightarrow> string" where
  "kindOf JNull = ''null''"
| "kindOf (JBool _) = ''bool''"
| "kindOf (JNum _) = ''number''"
| "kindOf (JStr _) = ''string''"
| "kindOf (JArr _) = ''array''"
| "kindOf (JObj _) = ''object''"

text \<open>The type assertion \<^verbatim>\<open>v, ok := m[k].(string)\<close> on a looked-up value.\<close>

fun asString :: "json option \<Rightarrow> string option" where
  "asString (Some (JStr s)) = Some s"
| "asString _ = None"

text \<open>
  \<^verbatim>\<open>Decode\<close> into a \<^verbatim>\<open>map[string]interface{}\<close>: an object gives its map, \<^verbatim>\<open>null\<close>
  leaves the nil map (every lookup misses) without an error, any other value is a
  type error of the decoder.
\<close>

fun mapOf :: "json \<Rightarrow> (string \<Rightarrow> json option) option" where
  "mapOf JNull = Some (\<lambda>k. None)"
| "mapOf (JObj kvs) = Some (field kvs)"
| "mapOf _ = None"

definition unmarshalTypeError :: "json \<Rightarrow> string \<Rightarrow> string" where
  "unmarshalTypeError v ty =
     ''json: cannot unmarshal '' @ kindOf v @ '' into Go value of type '' @ ty"

definition decodeObject :: "string + json \<Rightarrow> string + (string \<Rightarrow> json option)" where
  "decodeObject b =
     (case b of
        Inl err \<Rightarrow> Inl err
      | Inr v \<Rightarrow>
          (case mapOf v of
             Some m \<Rightarrow> Inr m
           | None \<Rightarrow> Inl (unmarshalTypeError v ''map[string]interface {}'')))"

text \<open>
  \<^verbatim>\<open>Decode\<close> into a \<^verbatim>\<open>[]map[string]interface{}\<close>: \<^verbatim>\<open>null\<close> leaves the nil slice; the
  first element that is neither an object nor \<^verbatim>\<open>null\<close> is the error returned.
\<close>

definition decodeObjects :: "string + json \<Rightarrow> string + (string \<Rightarrow> json option) list" where
  "decodeObjects b =
     (case b of
        Inl err \<Rightarrow> Inl err
      | Inr JNull \<Rightarrow> Inr []
      | Inr (JArr xs) \<Rightarrow>
          (case find (\<lambda>x. mapOf x = None) xs of
             Some x \<Rightarrow> Inl (unmarshalTypeError x ''map[string]interface {}'')
           | None \<Rightarrow> Inr (map (\<lambda>x. case mapOf x of Some m \<Rightarrow> m | None \<Rightarrow> (\<lambda>k. None)) xs))
      | Inr v \<Rightarrow> Inl (unmarshalTypeError v ''[]map[string]interface {}''))"

text \<open>\<^verbatim>\<open>fmt.Sprintf("%d", n)\<close>.\<close>

fun digitsOf :: "nat \<Rightarrow> string" where
  "digitsOf n =
     (if n < 10 then [''0123456789'' ! n]
      else digitsOf (n div 10) @ [''0123456789'' ! (n mod 10)])"

definition Sprintf_d :: "int \<Rightarrow> string" where
  "Sprintf_d i = (if i < 0 then ''-'' @ digitsOf (nat (- i)) else digitsOf (nat i))"

text \<open>Diagnostics: \<^verbatim>\<open>AddError\<close>, \<^verbatim>\<open>AddAttributeError\<close> (with its path) and warnings.\<close>

datatype diag =
    ErrorDiag string string
  | AttributeErrorDiag string string string
  | WarningDiag string string

fun isError :: "diag \<Rightarrow> bool" where
  "isError (WarningDiag _ _) = False"
| "isError _ = True"

definition HasError :: "diag list \<Rightarrow> bool" where
  "HasError ds = list_ex isError ds"

text \<open>\<^verbatim>\<open>Diagnostics.Append\<close> skips a diagnostic that the list already contains.\<close>

fun Append :: "diag list \<Rightarrow> diag list \<Rightarrow> diag list" where
  "Append ds [] = ds"
| "Append ds (d # new) = Append (if d \<in> set ds then ds else ds @ [d]) new"

definition AddError :: "string \<Rightarrow> string \<Rightarrow> diag list \<Rightarrow> diag list" where
  "AddError s d ds = Append ds [ErrorDiag s d]"


text \<open>
  An HTTP request as the code builds it, and a response as the code reads it:
  the numeric status code, the status line text, the raw body, and what the tokenizer of
  \<^verbatim>\<open>encoding/json\<close> makes of the body: the first JSON value in it, or the text of
  the syntax error (\<open>Inl\<close>) when there is none.
\<close>

record request =
  Method :: string
  URL :: string
  Header :: "(string \<times> string) list"
  ReqBody :: "json option"

record response =
  StatusCode :: nat
  Status :: string
  Body :: string
  BodyJSON :: "string + json"

text \<open>
  The outside world of one lifecycle call: which URLs \<^verbatim>\<open>http.NewRequestWithContext\<close>
  rejects (with the error text), and what the network answers to a request
  (\<open>Inl\<close> is a transport error).
\<close>

record world =
  urlError :: "string \<Rightarrow> string option"
  roundTrip :: "request \<Rightarrow> string + response"

definition NewRequest :: "world \<Rightarrow> string \<Rightarrow> string \<Rightarrow> json option \<Rightarrow> string + request" where
  "NewRequest w m u b =
     (case urlError w u of
        Some err \<Rightarrow> Inl err
      | None \<Rightarrow> Inr \<lparr>Method = m, URL = u, Header = [], ReqBody = b\<rparr>)"

text \<open>\<^verbatim>\<open>Header.Set\<close> replaces the values stored under the (canonical) key.\<close>

definition Header_Set :: "string \<Rightarrow> string \<Rightarrow> request \<Rightarrow> request" where
  "Header_Set k v r = r\<lparr>Header := filter (\<lambda>kv. fst kv \<noteq> k) (Header r) @ [(k, v)]\<rparr>"

text \<open>The authenticated transport of \<^verbatim>\<open>provider.go\<close>.\<close>

record authTransport =
  Token :: string
  BaseURL :: string

definition RoundTrip :: "authTransport \<Rightarrow> request \<Rightarrow> request" where
  "RoundTrip t req = Header_Set ''Authorization'' (''Bearer '' @ Token t) req"

text \<open>
  What a lifecycle call leaves behind: the diagnostics, what it did to
  \<^verbatim>\<open>resp.State\<close> (nothing, \<^verbatim>\<open>State.Set\<close>, or \<^verbatim>\<open>State.RemoveResource\<close>), and the
  requests it handed to the HTTP client, in order.
\<close>

datatype 'm state_effect = Untouched | StateSet 'm | StateRemoved

record 'm outcome =
  diags :: "diag list"
  effect :: "'m state_effect"
  sent :: "request list"

text \<open>
  The framework initialises \<^verbatim>\<open>resp.State\<close> before the call (empty for Create, the
  prior state for Read, Update and Delete); the state after the call follows from the
  effect. \<open>None\<close> is the Absent resource.
\<close>

fun state_after :: "'m option \<Rightarrow> 'm state_effect \<Rightarrow> 'm option" where
  "state_after s Untouched = s"
| "state_after s (StateSet m) = Some m"
| "state_after s StateRemoved = None"

section \<open>Host resource (\<^verbatim>\<open>resource_assets_host.go\<close>)\<close>

record JumpServerHostResourceModel =
  ID :: "string tfval"
  Name :: "string tfval"
  IP :: "string tfval"
  Platform :: "string tfval"
  NodesDisplay :: "string tfval list tfval"
  Protocols :: "attr list tfval"

text \<open>\<^verbatim>\<open>assetHostResource.Update\<close> has an empty body.\<close>

definition host_Update ::
  "world \<Rightarrow> authTransport \<Rightarrow> diag list \<times> JumpServerHostResourceModel
     \<Rightarrow> JumpServerHostResourceModel outcome" where
  "host_Update w t req = \<lparr>diags = [], effect = Untouched, sent = []\<rparr>"

text \<open>
  \<^verbatim>\<open>assetHostResource.Delete\<close>. The request is the pair of the diagnostics of
  \<^verbatim>\<open>req.State.Get\<close> and the decoded state.
\<close>

definition host_Delete ::
  "world \<Rightarrow> authTransport \<Rightarrow> diag list \<times> JumpServerHostResourceModel
     \<Rightarrow> JumpServerHostResourceModel outcome" where
  "host_Delete w t req =
     (let state = snd req;
          ds = Append [] (fst req)
      in if HasError ds then \<lparr>diags = ds, effect = Untouched, sent = []\<rparr>
      else
        let id = ValueString (ID state)
        in if id = [] then
             \<lparr>diags = AddError ''Missing ID'' ''Resource ID is required for deletion'' ds,
              effect = Untouched, sent = []\<rparr>
        else
          let apiPath = ''/api/v1/assets/hosts/'' @ id @ ''/'';
              fullURL = BaseURL t @ apiPath
          in case NewRequest w ''DELETE'' fullURL None of
               Inl err \<Rightarrow>
                 \<lparr>diags = AddError ''HTTP Request Error'' (''Unable to create request: '' @ err) ds,
                  effect = Untouched, sent = []\<rparr>
             | Inr httpReq0 \<Rightarrow>
                 let httpReq = Header_Set ''Authorization'' (''Bearer '' @ Token t)
                                 (Header_Set ''Accept'' ''application/json'' httpReq0)
                 in case roundTrip w httpReq of
                      Inl err \<Rightarrow>
                        \<lparr>diags = AddError ''HTTP Request Error'' (''Unable to send request: '' @ err) ds,
                         effect = Untouched, sent = [httpReq]\<rparr>
                    | Inr httpResp \<Rightarrow>
                        if StatusCode httpResp \<noteq> 204 \<and> StatusCode httpResp \<noteq> 200 then
                          \<lparr>diags = AddError ''API Error''
                                     (''Unexpected status code: '' @ Status httpResp
                                        @ '', Response: '' @ Body httpResp) ds,
                           effect = Untouched, sent = [httpReq]\<rparr>
                        else \<lparr>diags = ds, effect = StateRemoved, sent = [httpReq]\<rparr>)"


text \<open>
  \<^verbatim>\<open>assetHostResource.Read\<close>. A string-typed \<^verbatim>\<open>name\<close>, \<^verbatim>\<open>ip\<close> or \<^verbatim>\<open>platform\<close> of
  the response overwrites the field of the state; nothing else is assigned.
\<close>

definition host_Read ::
  "world \<Rightarrow> authTransport \<Rightarrow> diag list \<times> JumpServerHostResourceModel
     \<Rightarrow> JumpServerHostResourceModel outcome" where
  "host_Read w t req =
     (let state = snd req;
          ds = Append [] (fst req)
      in if HasError ds then \<lparr>diags = ds, effect = Untouched, sent = []\<rparr>
      else
        let id = ValueString (ID state);
            apiPath = ''/api/v1/assets/hosts/'' @ id @ ''/'';
            fullURL = BaseURL t @ apiPath
        in case NewRequest w ''GET'' fullURL None of
             Inl err \<Rightarrow>
               \<lparr>diags = AddError ''HTTP Request Error'' (''Unable to create request: '' @ err) ds,
                effect = Untouched, sent = []\<rparr>
           | Inr httpReq0 \<Rightarrow>
               let httpReq = Header_Set ''Authorization'' (''Bearer '' @ Token t)
                               (Header_Set ''Accept'' ''application/json'' httpReq0)
               in case roundTrip w httpReq of
                    Inl err \<Rightarrow>
                      \<lparr>diags = AddError ''HTTP Request Error'' (''Unable to send request: '' @ err) ds,
                       effect = Untouched, sent = [httpReq]\<rparr>
                  | Inr httpResp \<Rightarrow>
                      if StatusCode httpResp \<noteq> 200 then
                        \<lparr>diags = AddError ''API Error''
                                   (''Unexpected status code: '' @ Status httpResp
                                      @ '', Response: '' @ Body httpResp) ds,
                         effect = Untouched, sent = [httpReq]\<rparr>
                      else
                        case decodeObject (BodyJSON httpResp) of
                          Inl err \<Rightarrow>
                            \<lparr>diags = AddError ''JSON Decode Error''
                                       (''Unable to decode response: '' @ err) ds,
                             effect = Untouched, sent = [httpReq]\<rparr>
                        | Inr result \<Rightarrow>
                            let state1 = (case asString (result ''name'') of
                                            Some name \<Rightarrow> state\<lparr>Name := Known name\<rparr>
                                          | None \<Rightarrow> state);
                                state2 = (case asString (result ''ip'') of
                                            Some ip \<Rightarrow> state1\<lparr>IP := Known ip\<rparr>
                                          | None \<Rightarrow> state1);
                                state3 = (case asString (result ''platform'') of
                                            Some platform \<Rightarrow> state2\<lparr>Platform := Known platform\<rparr>
                                          | None \<Rightarrow> state2)
                            in \<lparr>diags = ds, effect = StateSet state3, sent = [httpReq]\<rparr>)"

text \<open>
  The protocol loop of \<^verbatim>\<open>assetHostResource.Create\<close>. A failure is either a diagnostic
  followed by \<^verbatim>\<open>return\<close>, or the panic of an unchecked type assertion
  (\<^verbatim>\<open>nameAttr.(types.String)\<close>, \<^verbatim>\<open>portAttr.(types.Int64)\<close>).
  \<^verbatim>\<open>json.Marshal\<close> writes the keys of a map in sorted order.
\<close>

datatype failure = DiagError string string | Panic string

definition protocolOf :: "attr \<Rightarrow> failure + json" where
  "protocolOf proto =
     (case proto of
        ObjectAttr attrs \<Rightarrow>
          (case map_of attrs ''name'' of
             None \<Rightarrow> Inl (DiagError ''Missing Attribute'' ''Protocol name is required'')
           | Some (StringAttr name) \<Rightarrow>
               (case map_of attrs ''port'' of
                  None \<Rightarrow> Inr (JObj [(''name'', JStr (ValueString name))])
                | Some (Int64Attr port) \<Rightarrow>
                    Inr (JObj [(''name'', JStr (ValueString name)),
                               (''port'', JNum (ValueInt64 port))])
                | Some _ \<Rightarrow> Inl (Panic ''interface conversion: attr.Value is not basetypes.Int64Value''))
           | Some _ \<Rightarrow> Inl (Panic ''interface conversion: attr.Value is not basetypes.StringValue''))
      | _ \<Rightarrow> Inl (DiagError ''Type Assertion Error'' ''Failed to assert protocol as types.Object''))"

fun protocolsOf :: "attr list \<Rightarrow> failure + json list" where
  "protocolsOf [] = Inr []"
| "protocolsOf (proto # rest) =
     (case protocolOf proto of
        Inl e \<Rightarrow> Inl e
      | Inr protocol \<Rightarrow>
          (case protocolsOf rest of
             Inl e \<Rightarrow> Inl e
           | Inr protocols \<Rightarrow> Inr (protocol # protocols)))"

text \<open>
  \<^verbatim>\<open>ElementsAs\<close> into a \<^verbatim>\<open>[]types.String\<close> fails on an unknown list. A slice that was never
  appended to is \<^verbatim>\<open>nil\<close> and is marshalled as \<^verbatim>\<open>null\<close>.
\<close>

definition marshalSlice :: "json list \<Rightarrow> json" where
  "marshalSlice xs = (if xs = [] then JNull else JArr xs)"

definition nodesDisplayOf :: "string tfval list tfval \<Rightarrow> failure + string list" where
  "nodesDisplayOf nd =
     (case nd of
        Null \<Rightarrow> Inr []
      | Unknown \<Rightarrow> Inl (DiagError ''Data Conversion Error''
                           ''Failed to convert nodes_display to []string'')
      | Known nodes \<Rightarrow> Inr (map ValueString nodes))"

definition assetOf :: "JumpServerHostResourceModel \<Rightarrow> string list \<Rightarrow> json list \<Rightarrow> json" where
  "assetOf plan nodesDisplay protocols =
     JObj [(''address'', JStr (ValueString (IP plan))),
           (''is_active'', JBool True),
           (''name'', JStr (ValueString (Name plan))),
           (''nodes_display'', marshalSlice (map JStr nodesDisplay)),
           (''platform'', JStr (ValueString (Platform plan))),
           (''protocols'', marshalSlice protocols)]"

text \<open>
  \<^verbatim>\<open>assetHostResource.Create\<close>; \<open>Inl\<close> is a panic. \<^verbatim>\<open>json.Marshal\<close> cannot fail on this
  payload, so its error branch has no counterpart.
\<close>

definition host_Create ::
  "world \<Rightarrow> authTransport \<Rightarrow> diag list \<times> JumpServerHostResourceModel
     \<Rightarrow> string + JumpServerHostResourceModel outcome" where
  "host_Create w t req =
     (let plan = snd req;
          ds = Append [] (fst req)
      in if HasError ds then Inr \<lparr>diags = ds, effect = Untouched, sent = []\<rparr>
      else
        case protocolsOf (Elements (Protocols plan)) of
          Inl (Panic msg) \<Rightarrow> Inl msg
        | Inl (DiagError s d) \<Rightarrow> Inr \<lparr>diags = AddError s d ds, effect = Untouched, sent = []\<rparr>
        | Inr protocols \<Rightarrow>
        case nodesDisplayOf (NodesDisplay plan) of
          Inl (Panic msg) \<Rightarrow> Inl msg
        | Inl (DiagError s d) \<Rightarrow> Inr \<lparr>diags = AddError s d ds, effect = Untouched, sent = []\<rparr>
        | Inr nodesDisplay \<Rightarrow>
        let asset = assetOf plan nodesDisplay protocols;
            apiPath = ''/api/v1/assets/hosts/'';
            fullURL = BaseURL t @ apiPath
        in case NewRequest w ''POST'' fullURL (Some asset) of
             Inl err \<Rightarrow>
               Inr \<lparr>diags = AddError ''HTTP Request Error'' (''Error creating asset: '' @ err) ds,
                    effect = Untouched, sent = []\<rparr>
           | Inr httpReq0 \<Rightarrow>
               let httpReq = Header_Set ''Authorization'' (''Bearer '' @ Token t)
                               (Header_Set ''Content-Type'' ''application/json'' httpReq0)
               in case roundTrip w httpReq of
                    Inl err \<Rightarrow>
                      Inr \<lparr>diags = AddError ''HTTP Request Error'' (''Error creating asset: '' @ err) ds,
                           effect = Untouched, sent = [httpReq]\<rparr>
                  | Inr respBody \<Rightarrow>
                      if StatusCode respBody \<noteq> 201 then
                        Inr \<lparr>diags = AddError ''HTTP Status Error''
                                        (''Error creating asset: '' @ Status respBody
                                           @ '', Response: '' @ Body respBody) ds,
                             effect = Untouched, sent = [httpReq]\<rparr>
                      else
                        case decodeObject (BodyJSON respBody) of
                          Inl err \<Rightarrow>
                            Inr \<lparr>diags = AddError ''Response Decode Error''
                                            (''Error decoding response: '' @ err) ds,
                                 effect = Untouched, sent = [httpReq]\<rparr>
                        | Inr result \<Rightarrow>
                            (case asString (result ''id'') of
                               Some id' \<Rightarrow>
                                 Inr \<lparr>diags = ds, effect = StateSet (plan\<lparr>ID := Known id'\<rparr>),
                                      sent = [httpReq]\<rparr>
                             | None \<Rightarrow>
                                 Inr \<lparr>diags = AddError ''API Error''
                                                 ''Unable to retrieve asset ID from response'' ds,
                                      effect = Untouched, sent = [httpReq]\<rparr>))"

section \<open>Library functions the account resource calls\<close>

text \<open>
  \<^verbatim>\<open>utf8.DecodeRuneInString\<close>: the first rune of a byte string and its width;
  \<^verbatim>\<open>(RuneError, 1)\<close> for an invalid encoding.
\<close>

definition RuneError :: nat where
  "RuneError = 0xFFFD"

fun DecodeRuneInString :: "string \<Rightarrow> nat \<times> nat" where
  "DecodeRuneInString [] = (RuneError, 0)"
| "DecodeRuneInString (c0 # rest) =
     (let s0 = (of_char c0 :: nat)
      in if s0 < 0x80 then (s0, 1)
         else if s0 < 0xC2 \<or> 0xF4 < s0 then (RuneError, 1)
         else
           let sz = (if s0 < 0xE0 then 2 else if s0 < 0xF0 then 3 else (4::nat));
               lo = (if s0 = 0xE0 then 0xA0 else if s0 = 0xF0 then 0x90 else (0x80::nat));
               hi = (if s0 = 0xED then 0x9F else if s0 = 0xF4 then 0x8F else (0xBF::nat))
           in if length (c0 # rest) < sz then (RuneError, 1)
              else
                let s1 = (of_char (rest ! 0) :: nat)
                in if s1 < lo \<or> hi < s1 then (RuneError, 1)
                   else if sz \<le> 2 then ((s0 mod 32) * 64 + s1 mod 64, 2)
                   else
                     let s2 = (of_char (rest ! 1) :: nat)
                     in if s2 < 0x80 \<or> 0xBF < s2 then (RuneError, 1)
                        else if sz \<le> 3 then
                          ((s0 mod 16) * 4096 + (s1 mod 64) * 64 + s2 mod 64, 3)
                        else
                          let s3 = (of_char (rest ! 2) :: nat)
                          in if s3 < 0x80 \<or> 0xBF < s3 then (RuneError, 1)
                             else ((s0 mod 8) * 262144 + (s1 mod 64) * 4096
                                     + (s2 mod 64) * 64 + s3 mod 64, 4))"

text \<open>
  \<^verbatim>\<open>strconv.IsPrint\<close>. Latin-1 is decided by comparisons; above it the function
  searches the Unicode tables of the Go runtime, which are the parameter \<open>tbl\<close>.
\<close>

definition IsPrint :: "(nat \<Rightarrow> bool) \<Rightarrow> nat \<Rightarrow> bool" where
  "IsPrint tbl r =
     (if r \<le> 0xFF then
        (if 0x20 \<le> r \<and> r \<le> 0x7E then True
         else if 0xA1 \<le> r then r \<noteq> 0xAD
         else False)
      else tbl r)"

definition lowerhex :: "nat \<Rightarrow> char" where
  "lowerhex n = ''0123456789abcdef'' ! (n mod 16)"

text \<open>
  \<^verbatim>\<open>strconv.appendEscapedRune\<close> with the quote \<^verbatim>\<open>"\<close>; \<open>enc\<close> is the UTF-8 encoding of
  the rune, which a printable rune is written as.
\<close>

definition appendEscapedRune :: "(nat \<Rightarrow> bool) \<Rightarrow> nat \<Rightarrow> string \<Rightarrow> string" where
  "appendEscapedRune tbl r enc =
     (if r = 0x22 then [CHR 0x5C, CHR 0x22]
      else if r = 0x5C then [CHR 0x5C, CHR 0x5C]
      else if IsPrint tbl r then enc
      else if r = 7 then [CHR 0x5C, CHR ''a'']
      else if r = 8 then [CHR 0x5C, CHR ''b'']
      else if r = 12 then [CHR 0x5C, CHR ''f'']
      else if r = 10 then [CHR 0x5C, CHR ''n'']
      else if r = 13 then [CHR 0x5C, CHR ''r'']
      else if r = 9 then [CHR 0x5C, CHR ''t'']
      else if r = 11 then [CHR 0x5C, CHR ''v'']
      else if r < 0x20 \<or> r = 0x7F then [CHR 0x5C, CHR ''x'', lowerhex (r div 16), lowerhex r]
      else if r < 0x10000 then
        [CHR 0x5C, CHR ''u'', lowerhex (r div 4096), lowerhex (r div 256),
         lowerhex (r div 16), lowerhex r]
      else
        [CHR 0x5C, CHR ''U'', lowerhex (r div 268435456), lowerhex (r div 16777216),
         lowerhex (r div 1048576), lowerhex (r div 65536), lowerhex (r div 4096),
         lowerhex (r div 256), lowerhex (r div 16), lowerhex r])"

text \<open>The rune at the head of a non-empty string, as the loops of \<^verbatim>\<open>strconv\<close> read it.\<close>

definition headRune :: "string \<Rightarrow> nat \<times> nat" where
  "headRune s =
     (if (of_char (hd s) :: nat) \<ge> 0x80 then DecodeRuneInString s else (of_char (hd s), 1))"

function appendQuoted :: "(nat \<Rightarrow> bool) \<Rightarrow> string \<Rightarrow> string" where
  "appendQuoted tbl s =
     (if s = [] then []
      else
        let r = fst (headRune s); width = snd (headRune s)
        in (if width = 1 \<and> r = RuneError then
              [CHR 0x5C, CHR ''x'', lowerhex (of_char (hd s) div 16), lowerhex (of_char (hd s))]
            else appendEscapedRune tbl r (take width s))
           @ appendQuoted tbl (drop width s))"
  by pat_completeness auto

termination appendQuoted
  by (relation "measure (\<lambda>(tbl, s). length s)")
     (auto simp: headRune_def Let_def neq_Nil_conv)

text \<open>\<^verbatim>\<open>strconv.Quote\<close>, which \<^verbatim>\<open>fmt\<close> uses for the verb \<^verbatim>\<open>%q\<close>.\<close>

definition Quote :: "(nat \<Rightarrow> bool) \<Rightarrow> string \<Rightarrow> string" where
  "Quote tbl s = [CHR 0x22] @ appendQuoted tbl s @ [CHR 0x22]"

text \<open>
  \<^verbatim>\<open>basetypes.StringValue.String()\<close>, the human-readable form that the account
  resource reads each asset through.
\<close>

fun String_of :: "(nat \<Rightarrow> bool) \<Rightarrow> string tfval \<Rightarrow> string" where
  "String_of tbl Unknown = ''<unknown>''"
| "String_of tbl Null = ''<null>''"
| "String_of tbl (Known s) = Quote tbl s"

text \<open>
  \<^verbatim>\<open>utf8.DecodeLastRuneInString\<close>: it looks back at most four bytes for the start of
  the last rune.
\<close>

definition RuneStart :: "char \<Rightarrow> bool" where
  "RuneStart b = (\<not> (0x80 \<le> (of_char b :: nat) \<and> (of_char b :: nat) < 0xC0))"

definition DecodeLastRuneInString :: "string \<Rightarrow> nat \<times> nat" where
  "DecodeLastRuneInString s =
     (let end = length s
      in if end = 0 then (RuneError, 0)
         else
           let r = (of_char (s ! (end - 1)) :: nat)
           in if r < 0x80 then (r, 1)
              else
                let lim = end - 4;
                    start = (case find (\<lambda>i. RuneStart (s ! i)) (rev [lim..<end - 1]) of
                               Some i \<Rightarrow> i
                             | None \<Rightarrow> lim - 1);
                    d = DecodeRuneInString (drop start s)
                in if start + snd d \<noteq> end then (RuneError, 1) else d)"

text \<open>
  \<^verbatim>\<open>strings.Trim\<close> for a cutset that is not pure ASCII (\<^verbatim>\<open>trimRightUnicode\<close>, then
  \<^verbatim>\<open>trimLeftUnicode\<close>); the cutset is given by its runes.
\<close>

function trimLeftUnicode :: "nat list \<Rightarrow> string \<Rightarrow> string" where
  "trimLeftUnicode cutset s =
     (if s = [] then s
      else if fst (headRune s) \<notin> set cutset then s
      else trimLeftUnicode cutset (drop (snd (headRune s)) s))"
  by pat_completeness auto
termination
  by (relation "measure (\<lambda>(cutset, s). length s)")
     (auto simp: headRune_def Let_def neq_Nil_conv)

definition lastRune :: "string \<Rightarrow> nat \<times> nat" where
  "lastRune s =
     (if (of_char (last s) :: nat) \<ge> 0x80 then DecodeLastRuneInString s
      else (of_char (last s), 1))"

function trimRightUnicode :: "nat list \<Rightarrow> string \<Rightarrow> string" where
  "trimRightUnicode cutset s =
     (if s = [] then s
      else if fst (lastRune s) \<notin> set cutset then s
      else trimRightUnicode cutset (take (length s - snd (lastRune s)) s))"
  by pat_completeness auto

lemma DecodeRuneInString_width: "s \<noteq> [] \<Longrightarrow> 0 < snd (DecodeRuneInString s)"
  by (cases s) (simp_all add: Let_def)

lemma DecodeLastRuneInString_width:
  assumes "s \<noteq> []"
  shows "0 < snd (DecodeLastRuneInString s)"
proof -
  define lim where "lim = length s - 4"
  define start where
    "start = (case find (\<lambda>i. RuneStart (s ! i)) (rev [lim..<length s - 1]) of
                Some i \<Rightarrow> i | None \<Rightarrow> lim - 1)"
  have "start < length s"
  proof (cases "find (\<lambda>i. RuneStart (s ! i)) (rev [lim..<length s - 1])")
    case None
    with assms show ?thesis
      by (cases s) (simp_all add: start_def lim_def)
  next
    case (Some i)
    then obtain k where "k < length (rev [lim..<length s - 1])"
        and "i = rev [lim..<length s - 1] ! k"
      unfolding find_Some_iff by blast
    then have "i \<in> set (rev [lim..<length s - 1])"
      using nth_mem by blast
    then have "i < length s"
      by auto
    with Some show ?thesis
      by (simp add: start_def)
  qed
  then have "drop start s \<noteq> []"
    by simp
  then have "0 < snd (DecodeRuneInString (drop start s))"
    by (rule DecodeRuneInString_width)
  with assms show ?thesis
    unfolding DecodeLastRuneInString_def Let_def start_def lim_def
    by simp
qed

termination trimRightUnicode
proof (relation "measure (\<lambda>(cutset, s). length s)")
  fix cutset :: "nat list" and s :: string
  assume "s \<noteq> []"
  then have "0 < snd (lastRune s)" "0 < length s"
    by (simp_all add: lastRune_def DecodeLastRuneInString_width)
  then show "((cutset, take (length s - snd (lastRune s)) s), (cutset, s))
               \<in> measure (\<lambda>(cutset, s). length s)"
    by simp
qed simp

definition Trim :: "string \<Rightarrow> nat list \<Rightarrow> string" where
  "Trim s cutset = trimLeftUnicode cutset (trimRightUnicode cutset s)"

text \<open>
  \<^verbatim>\<open>uuid.Parse\<close> of \<^verbatim>\<open>github.com/google/uuid\<close>, reduced to whether it returns an error
  (\<open>True\<close> is \<^verbatim>\<open>err == nil\<close>): the lengths 36, 45 (\<^verbatim>\<open>urn:uuid:\<close> prefix), 38 (one
  delimiter on each side) and 32 (no hyphens).
\<close>

definition toLowerASCII :: "char \<Rightarrow> char" where
  "toLowerASCII c =
     (if CHR ''A'' \<le> c \<and> c \<le> CHR ''Z''
      then ''abcdefghijklmnopqrstuvwxyz'' ! ((of_char c :: nat) - 65)
      else c)"

definition xvalid :: "char \<Rightarrow> bool" where
  "xvalid c = ((CHR ''0'' \<le> c \<and> c \<le> CHR ''9'') \<or> (CHR ''a'' \<le> c \<and> c \<le> CHR ''f'')
               \<or> (CHR ''A'' \<le> c \<and> c \<le> CHR ''F''))"

definition xtob :: "char \<Rightarrow> char \<Rightarrow> bool" where
  "xtob x1 x2 = (xvalid x1 \<and> xvalid x2)"

definition uuid_Parse :: "string \<Rightarrow> bool" where
  "uuid_Parse s0 =
     (let n = length s0
      in if n = 32 then list_all (\<lambda>i. xtob (s0 ! (i * 2)) (s0 ! (i * 2 + 1))) [0..<16]
         else if n \<noteq> 36 \<and> n \<noteq> 36 + 9 \<and> n \<noteq> 36 + 2 then False
         else if n = 36 + 9 \<and> map toLowerASCII (take 9 s0) \<noteq> ''urn:uuid:'' then False
         else
           let s = (if n = 36 + 9 then drop 9 s0 else if n = 36 + 2 then drop 1 s0 else s0)
           in if s ! 8 \<noteq> CHR ''-'' \<or> s ! 13 \<noteq> CHR ''-'' \<or> s ! 18 \<noteq> CHR ''-''
                 \<or> s ! 23 \<noteq> CHR ''-'' then False
              else list_all (\<lambda>x. xtob (s ! x) (s ! (x + 1)))
                     [0, 2, 4, 6, 9, 11, 14, 16, 19, 21, 24, 26, 28, 30, 32, 34])"

section \<open>Account resource\<close>

record JumpServerAccountModel =
  acc_Name :: "string tfval"
  acc_Username :: "string tfval"
  acc_Privileged :: "bool tfval"
  acc_Is_active :: "bool tfval"
  acc_Assets :: "string tfval list tfval"

text \<open>\<^verbatim>\<open>accountResource.Update\<close> has an empty body.\<close>

definition account_Update ::
  "world \<Rightarrow> authTransport \<Rightarrow> diag list \<times> JumpServerAccountModel
     \<Rightarrow> JumpServerAccountModel outcome" where
  "account_Update w t req = \<lparr>diags = [], effect = Untouched, sent = []\<rparr>"

text \<open>
  The asset loop of \<^verbatim>\<open>accountResource.Create\<close>: each element is rendered with
  \<^verbatim>\<open>String()\<close>, trimmed of the two curly quotes and the straight quote, and parsed;
  \<open>Inl\<close> carries the first trimmed string that does not parse.
\<close>

definition cutset :: "nat list" where
  "cutset = [0x201C, 0x201D, 0x22]"

fun validAssetsOf :: "(nat \<Rightarrow> bool) \<Rightarrow> string tfval list \<Rightarrow> string + string list" where
  "validAssetsOf tbl [] = Inr []"
| "validAssetsOf tbl (asset # rest) =
     (let assetStr = Trim (String_of tbl asset) cutset
      in if \<not> uuid_Parse assetStr then Inl assetStr
         else case validAssetsOf tbl rest of
                Inl bad \<Rightarrow> Inl bad
              | Inr validAssets \<Rightarrow> Inr (assetStr # validAssets))"

text \<open>
  \<^verbatim>\<open>accountResource.Create\<close>. The request goes through \<^verbatim>\<open>r.client\<close>, whose transport
  is the authenticated one; \<open>sent\<close> records it as it leaves that transport.
\<close>

definition account_Create ::
  "(nat \<Rightarrow> bool) \<Rightarrow> world \<Rightarrow> authTransport \<Rightarrow> diag list \<times> JumpServerAccountModel
     \<Rightarrow> JumpServerAccountModel outcome" where
  "account_Create tbl w t req =
     (let plan = snd req;
          ds = Append [] (fst req)
      in if HasError ds then \<lparr>diags = ds, effect = Untouched, sent = []\<rparr>
      else
        case validAssetsOf tbl (Elements (acc_Assets plan)) of
          Inl assetStr \<Rightarrow>
            \<lparr>diags = AddError ''Invalid UUID''
                       (''Asset '' @ [CHR 0x27] @ assetStr @ [CHR 0x27] @ '' is not a valid UUID'') ds,
             effect = Untouched, sent = []\<rparr>
        | Inr validAssets \<Rightarrow>
            let payload = JObj [(''assets'', marshalSlice (map JStr validAssets)),
                                (''is_active'', JBool (ValueBool (acc_Is_active plan))),
                                (''name'', JStr (ValueString (acc_Name plan))),
                                (''privileged'', JBool (ValueBool (acc_Privileged plan))),
                                (''username'', JStr (ValueString (acc_Username plan)))];
                url = ''http://172.30.9.65/api/v1/accounts/accounts/bulk/''
            in case NewRequest w ''POST'' url (Some payload) of
                 Inl err \<Rightarrow>
                   \<lparr>diags = AddError ''Error creating HTTP request'' err ds,
                    effect = Untouched, sent = []\<rparr>
               | Inr httpReq0 \<Rightarrow>
                   let httpReq = RoundTrip t (Header_Set ''Content-Type'' ''application/json'' httpReq0)
                   in case roundTrip w httpReq of
                        Inl err \<Rightarrow>
                          \<lparr>diags = AddError ''Error sending HTTP request'' err ds,
                           effect = Untouched, sent = [httpReq]\<rparr>
                      | Inr httpResp \<Rightarrow>
                          if StatusCode httpResp \<noteq> 200 then
                            \<lparr>diags = AddError ''API Error''
                                       (''Unexpected status code: ''
                                          @ Sprintf_d (int (StatusCode httpResp))
                                          @ '', Response: '' @ Body httpResp) ds,
                             effect = Untouched, sent = [httpReq]\<rparr>
                          else
                            case decodeObjects (BodyJSON httpResp) of
                              Inl err \<Rightarrow>
                                \<lparr>diags = AddError ''Error decoding API response'' err ds,
                                 effect = Untouched, sent = [httpReq]\<rparr>
                            | Inr apiResponse \<Rightarrow>
                                if length apiResponse > 0
                                   \<and> asString ((hd apiResponse) ''state'') \<noteq> Some ''created''
                                then
                                  \<lparr>diags = AddError ''Invalid API response''
                                             ''The response did not contain the expected data'' ds,
                                   effect = Untouched, sent = [httpReq]\<rparr>
                                else \<lparr>diags = ds, effect = StateSet plan, sent = [httpReq]\<rparr>)"

text \<open>
  The validation failure of the account resource is the diagnostic that the asset loop
  adds, recognised by its summary.
\<close>

fun isValidationError :: "diag \<Rightarrow> bool" where
  "isValidationError (ErrorDiag s d) = (s = ''Invalid UUID'')"
| "isValidationError _ = False"

section \<open>Host suggestions data source\<close>

text \<open>
  \<^verbatim>\<open>url.QueryEscape\<close>: letters, digits and \<^verbatim>\<open>-_.~\<close> stay, a space becomes \<^verbatim>\<open>+\<close>, every
  other byte becomes \<^verbatim>\<open>%XX\<close>.
\<close>

definition upperhex :: "nat \<Rightarrow> char" where
  "upperhex n = ''0123456789ABCDEF'' ! (n mod 16)"

definition shouldEscape :: "char \<Rightarrow> bool" where
  "shouldEscape c =
     (\<not> ((CHR ''a'' \<le> c \<and> c \<le> CHR ''z'') \<or> (CHR ''A'' \<le> c \<and> c \<le> CHR ''Z'')
         \<or> (CHR ''0'' \<le> c \<and> c \<le> CHR ''9'')
         \<or> c = CHR ''-'' \<or> c = CHR ''_'' \<or> c = CHR ''.'' \<or> c = CHR ''~''))"

definition escapeByte :: "char \<Rightarrow> string" where
  "escapeByte c =
     (if c = CHR '' '' then ''+''
      else if shouldEscape c then [CHR ''%'', upperhex (of_char c div 16), upperhex (of_char c)]
      else [c])"

definition QueryEscape :: "string \<Rightarrow> string" where
  "QueryEscape s = concat (map escapeByte s)"

text \<open>
  \<^verbatim>\<open>url.Values\<close> is a \<^verbatim>\<open>map[string][]string\<close>: here the keys in the order of their
  first \<^verbatim>\<open>Add\<close>. \<^verbatim>\<open>Encode\<close> sorts by key and writes \<^verbatim>\<open>key=value\<close> pairs joined by
  \<^verbatim>\<open>&\<close>.
\<close>

type_synonym Values = "(string \<times> string list) list"

definition Values_Add :: "string \<Rightarrow> string \<Rightarrow> Values \<Rightarrow> Values" where
  "Values_Add k v q =
     (if k \<in> fst ` set q then map (\<lambda>kv. if fst kv = k then (k, snd kv @ [v]) else kv) q
      else q @ [(k, [v])])"

fun joinAmp :: "string list \<Rightarrow> string" where
  "joinAmp [] = []"
| "joinAmp [p] = p"
| "joinAmp (p # ps) = p @ ''&'' @ joinAmp ps"

definition Encode :: "Values \<Rightarrow> string" where
  "Encode q =
     joinAmp (concat (map (\<lambda>kv. map (\<lambda>v. QueryEscape (fst kv) @ ''='' @ QueryEscape v) (snd kv))
                          (sort_key fst q)))"

record HostModel =
  hm_ID :: "string tfval"
  hm_Name :: "string tfval"

record HostSuggestionsDataSourceModel =
  q_ID :: "string tfval"
  q_Name :: "string tfval"
  q_Address :: "string tfval"
  q_IsActive :: "string tfval"
  q_Type :: "string tfval"
  q_Category :: "string tfval"
  q_Platform :: "string tfval"
  q_IsGateway :: "string tfval"
  q_ExcludePlatform :: "string tfval"
  q_Domain :: "string tfval"
  q_Protocols :: "string tfval"
  q_DomainEnabled :: "string tfval"
  q_PingEnabled :: "string tfval"
  q_GatherFactsEnabled :: "string tfval"
  q_ChangeSecretEnabled :: "string tfval"
  q_PushAccountEnabled :: "string tfval"
  q_VerifyAccountEnabled :: "string tfval"
  q_GatherAccountsEnabled :: "string tfval"
  q_Search :: "string tfval"
  q_Order :: "string tfval"
  q_Limit :: "int tfval"
  q_Offset :: "int tfval"
  q_Results :: "HostModel list"
  q_TotalCount :: "int tfval"
  q_Next :: "string tfval"
  q_Previous :: "string tfval"

text \<open>
  The chain of \<^verbatim>\<open>if !data.X.IsNull() { queryParams.Add(key, value) }\<close> statements, in
  source order: each row is the key, the \<^verbatim>\<open>IsNull()\<close> test and the value that would be
  added.
\<close>

definition filters :: "HostSuggestionsDataSourceModel \<Rightarrow> (string \<times> bool \<times> string) list" where
  "filters data =
     [(''id'', IsNull (q_ID data), ValueString (q_ID data)),
      (''name'', IsNull (q_Name data), ValueString (q_Name data)),
      (''address'', IsNull (q_Address data), ValueString (q_Address data)),
      (''is_active'', IsNull (q_IsActive data), ValueString (q_IsActive data)),
      (''type'', IsNull (q_Type data), ValueString (q_Type data)),
      (''category'', IsNull (q_Category data), ValueString (q_Category data)),
      (''platform'', IsNull (q_Platform data), ValueString (q_Platform data)),
      (''is_gateway'', IsNull (q_IsGateway data), ValueString (q_IsGateway data)),
      (''exclude_platform'', IsNull (q_ExcludePlatform data), ValueString (q_ExcludePlatform data)),
      (''domain'', IsNull (q_Domain data), ValueString (q_Domain data)),
      (''protocols'', IsNull (q_Protocols data), ValueString (q_Protocols data)),
      (''domain_enabled'', IsNull (q_DomainEnabled data), ValueString (q_DomainEnabled data)),
      (''ping_enabled'', IsNull (q_PingEnabled data), ValueString (q_PingEnabled data)),
      (''gather_facts_enabled'', IsNull (q_GatherFactsEnabled data),
         ValueString (q_GatherFactsEnabled data)),
      (''change_secret_enabled'', IsNull (q_ChangeSecretEnabled data),
         ValueString (q_ChangeSecretEnabled data)),
      (''push_account_enabled'', IsNull (q_PushAccountEnabled data),
         ValueString (q_PushAccountEnabled data)),
      (''verify_account_enabled'', IsNull (q_VerifyAccountEnabled data),
         ValueString (q_VerifyAccountEnabled data)),
      (''gather_accounts_enabled'', IsNull (q_GatherAccountsEnabled data),
         ValueString (q_GatherAccountsEnabled data)),
      (''search'', IsNull (q_Search data), ValueString (q_Search data)),
      (''order'', IsNull (q_Order data), ValueString (q_Order data)),
      (''limit'', IsNull (q_Limit data), Sprintf_d (ValueInt64 (q_Limit data))),
      (''offset'', IsNull (q_Offset data), Sprintf_d (ValueInt64 (q_Offset data)))]"

definition addFilter :: "string \<times> bool \<times> string \<Rightarrow> Values \<Rightarrow> Values" where
  "addFilter row q = (if \<not> fst (snd row) then Values_Add (fst row) (snd (snd row)) q else q)"

definition queryParamsOf :: "HostSuggestionsDataSourceModel \<Rightarrow> Values" where
  "queryParamsOf data = fold addFilter (filters data) []"

text \<open>
  \<^verbatim>\<open>Decode\<close> into the slice of \<^verbatim>\<open>struct { ID string; Name string }\<close> with the tags
  \<^verbatim>\<open>id\<close> and \<^verbatim>\<open>name\<close>. A key selects a field by its name, compared without regard to
  case; a string is stored, \<^verbatim>\<open>null\<close> leaves the field, any other value is a type error.
  The members of an object are visited in order, so the first error is the one returned.
\<close>

definition structType :: string where
  "structType = ''struct { ID string '' @ [CHR 0x22] @ ''json:'' @ [CHR 0x5C, CHR 0x22] @ ''id''
      @ [CHR 0x5C, CHR 0x22, CHR 0x22] @ ''; Name string '' @ [CHR 0x22] @ ''json:''
      @ [CHR 0x5C, CHR 0x22] @ ''name'' @ [CHR 0x5C, CHR 0x22, CHR 0x22] @ '' }''"

definition fieldTypeError :: "json \<Rightarrow> string \<Rightarrow> string" where
  "fieldTypeError v f =
     ''json: cannot unmarshal '' @ kindOf v @ '' into Go struct field .'' @ f @ '' of type string''"

fun decodeStruct :: "(string \<times> json) list \<Rightarrow> string \<times> string \<Rightarrow> string + (string \<times> string)" where
  "decodeStruct [] h = Inr h"
| "decodeStruct ((k, v) # kvs) (i, n) =
     (if map toLowerASCII k = ''id'' then
        (case v of
           JStr s \<Rightarrow> decodeStruct kvs (s, n)
         | JNull \<Rightarrow> decodeStruct kvs (i, n)
         | _ \<Rightarrow> Inl (fieldTypeError v ''id''))
      else if map toLowerASCII k = ''name'' then
        (case v of
           JStr s \<Rightarrow> decodeStruct kvs (i, s)
         | JNull \<Rightarrow> decodeStruct kvs (i, n)
         | _ \<Rightarrow> Inl (fieldTypeError v ''name''))
      else decodeStruct kvs (i, n))"

definition decodeHost :: "json \<Rightarrow> string + (string \<times> string)" where
  "decodeHost v =
     (case v of
        JNull \<Rightarrow> Inr ([], [])
      | JObj kvs \<Rightarrow> decodeStruct kvs ([], [])
      | _ \<Rightarrow> Inl (unmarshalTypeError v structType))"

fun decodeAll :: "json list \<Rightarrow> string + (string \<times> string) list" where
  "decodeAll [] = Inr []"
| "decodeAll (x # xs) =
     (case decodeHost x of
        Inl err \<Rightarrow> Inl err
      | Inr h \<Rightarrow> (case decodeAll xs of Inl err \<Rightarrow> Inl err | Inr hs \<Rightarrow> Inr (h # hs)))"

definition decodeHosts :: "string + json \<Rightarrow> string + (string \<times> string) list" where
  "decodeHosts b =
     (case b of
        Inl err \<Rightarrow> Inl err
      | Inr JNull \<Rightarrow> Inr []
      | Inr (JArr xs) \<Rightarrow> decodeAll xs
      | Inr v \<Rightarrow> Inl (unmarshalTypeError v (''[]'' @ structType)))"

text \<open>\<^verbatim>\<open>HostSuggestionsDataSource.Read\<close>; the request goes through \<^verbatim>\<open>d.client\<close>.\<close>

definition hostSuggestions_Read ::
  "world \<Rightarrow> authTransport \<Rightarrow> diag list \<times> HostSuggestionsDataSourceModel
     \<Rightarrow> HostSuggestionsDataSourceModel outcome" where
  "hostSuggestions_Read w t req =
     (let data = snd req;
          ds = Append [] (fst req)
      in if HasError ds then \<lparr>diags = ds, effect = Untouched, sent = []\<rparr>
      else
        let queryParams = queryParamsOf data;
            apiPath = ''/api/v1/assets/hosts/suggestions/'';
            fullURL = BaseURL t @ apiPath @ ''?'' @ Encode queryParams
        in case NewRequest w ''GET'' fullURL None of
             Inl err \<Rightarrow>
               \<lparr>diags = AddError ''Failed to create HTTP request'' (''Error: '' @ err) ds,
                effect = Untouched, sent = []\<rparr>
           | Inr httpReq0 \<Rightarrow>
               let httpReq = RoundTrip t httpReq0
               in case roundTrip w httpReq of
                    Inl err \<Rightarrow>
                      \<lparr>diags = AddError ''Failed to send HTTP request'' (''Error: '' @ err) ds,
                       effect = Untouched, sent = [httpReq]\<rparr>
                  | Inr httpResp \<Rightarrow>
                      if StatusCode httpResp \<noteq> 200 then
                        \<lparr>diags = AddError ''Unexpected HTTP response status''
                                   (''Received status code: ''
                                      @ Sprintf_d (int (StatusCode httpResp))) ds,
                         effect = Untouched, sent = [httpReq]\<rparr>
                      else
                        case decodeHosts (BodyJSON httpResp) of
                          Inl err \<Rightarrow>
                            \<lparr>diags = AddError ''Failed to decode JSON response'' (''Error: '' @ err) ds,
                             effect = Untouched, sent = [httpReq]\<rparr>
                        | Inr apiResponse \<Rightarrow>
                            \<lparr>diags = ds,
                             effect = StateSet
                               (data\<lparr>q_TotalCount := Known (int (length apiResponse)),
                                     q_Next := Null,
                                     q_Previous := Null,
                                     q_Results :=
                                       map (\<lambda>result. \<lparr>hm_ID = Known (fst result),
                                                       hm_Name = Known (snd result)\<rparr>)
                                           apiResponse\<rparr>),
                             sent = [httpReq]\<rparr>)"

section \<open>Provider configuration (\<^verbatim>\<open>provider.go\<close>)\<close>







section \<open>Example values\<close>

text \<open>A world in which every URL parses and the network answers every request with \<open>r\<close>.\<close>

definition answering :: "response \<Rightarrow> world" where
  "answering r = \<lparr>urlError = (\<lambda>u. None), roundTrip = (\<lambda>rq. Inr r)\<rparr>"

definition js :: authTransport where
  "js = \<lparr>Token = ''tok'', BaseURL = ''https://js.example.com''\<rparr>"

definition web1 :: JumpServerHostResourceModel where
  "web1 = \<lparr>ID = Known ''h-1'', Name = Known ''web-1'', IP = Known ''10.0.0.5'',
           Platform = Known ''Linux'', NodesDisplay = Known [Known ''/Default''],
           Protocols = Known [ObjectAttr [(''name'', StringAttr (Known ''ssh'')),
                                          (''port'', Int64Attr (Known 22))]]\<rparr>"

text \<open>
  A stand-in for the Unicode tables behind \<^verbatim>\<open>strconv.IsPrint\<close> that agrees with them on
  the two runes above Latin-1 that the examples contain: the curly quotes U+201C and
  U+201D are printable.
\<close>

definition quotesPrintable :: "nat \<Rightarrow> bool" where
  "quotesPrintable r = (r = 0x201C \<or> r = 0x201D)"

definition ops :: JumpServerAccountModel where
  "ops = \<lparr>acc_Name = Known ''ops'', acc_Username = Known ''root'',
          acc_Privileged = Known True, acc_Is_active = Known True,
          acc_Assets = Known [Known ''550e8400-e29b-41d4-a716-446655440000'']\<rparr>"

text \<open>The answer of the bulk endpoint to a successful creation.\<close>

definition created :: response where
  "created = \<lparr>StatusCode = 200, Status = ''200 OK'', Body = ''[...]'',
              BodyJSON = Inr (JArr [JObj [(''asset'', JStr ''web-1(10.0.0.5)''),
                                          (''state'', JStr ''created''),
                                          (''changed'', JBool True)]])\<rparr>"

text \<open>A UUID between U+201C and U+201D, in UTF-8.\<close>

definition curlyQuoted :: string where
  "curlyQuoted = [CHR 0xE2, CHR 0x80, CHR 0x9C] @ ''550e8400-e29b-41d4-a716-446655440000''
                   @ [CHR 0xE2, CHR 0x80, CHR 0x9D]"

text \<open>A lookup with no filter set.\<close>

definition noFilters :: HostSuggestionsDataSourceModel where
  "noFilters = \<lparr>q_ID = Null, q_Name = Null, q_Address = Null, q_IsActive = Null, q_Type = Null,
     q_Category = Null, q_Platform = Null, q_IsGateway = Null, q_ExcludePlatform = Null,
     q_Domain = Null, q_Protocols = Null, q_DomainEnabled = Null, q_PingEnabled = Null,
     q_GatherFactsEnabled = Null, q_ChangeSecretEnabled = Null, q_PushAccountEnabled = Null,
     q_VerifyAccountEnabled = Null, q_GatherAccountsEnabled = Null, q_Search = Null,
     q_Order = Null, q_Limit = Null, q_Offset = Null, q_Results = [], q_TotalCount = Null,
     q_Next = Null, q_Previous = Null\<rparr>"

text \<open>An answer of the suggestions endpoint; the second entry spells its key \<^verbatim>\<open>ID\<close>.\<close>

definition twoHosts :: response where
  "twoHosts = \<lparr>StatusCode = 200, Status = ''200 OK'', Body = ''[...]'',
     BodyJSON = Inr (JArr [JObj [(''id'', JStr ''h-1''), (''name'', JStr ''web-1''),
                                 (''address'', JStr ''10.0.0.5'')],
                           JObj [(''name'', JStr ''db-1''), (''ID'', JStr ''h-2'')]])\<rparr>"





section \<open>Diagnostics lemmas\<close>


lemma AddError_fresh: "\<not> HasError ds \<Longrightarrow> AddError s d ds = ds @ [ErrorDiag s d]"
  by (auto simp: AddError_def HasError_def list_ex_iff)

lemma HasError_AddError: "HasError (AddError s d ds)"
proof (cases "ErrorDiag s d \<in> set ds")
  case True
  then have "\<exists>x \<in> set ds. isError x"
    by (rule bexI [rotated]) simp
  with True show ?thesis
    by (simp add: AddError_def HasError_def list_ex_iff)
next
  case False
  then show ?thesis
    by (simp add: AddError_def HasError_def list_ex_iff)
qed

lemma set_Append: "set (Append ds new) = set ds \<union> set new"
  by (induction new arbitrary: ds) auto

lemma HasError_Append: "HasError (Append ds new) \<longleftrightarrow> HasError ds \<or> HasError new"
  by (auto simp: HasError_def list_ex_iff set_Append)

lemma Append_Nil_noerr: "HasError (Append [] gd) = HasError gd"
  using HasError_Append [of "[]" gd] by (simp add: HasError_def)

lemma decodeObject_Inr:
  "decodeObject b = Inr res \<longleftrightarrow>
     (b = Inr JNull \<and> res = (\<lambda>k. None)) \<or> (\<exists>kvs. b = Inr (JObj kvs) \<and> res = field kvs)"
proof (cases b)
  case (Inl err)
  then show ?thesis by (simp add: decodeObject_def)
next
  case (Inr v)
  then show ?thesis
    by (cases v) (auto simp: decodeObject_def)
qed

lemma decodeObject_Inl_no_object: "decodeObject b = Inl err \<Longrightarrow> b \<noteq> Inr (JObj kvs)"
  by (auto simp: decodeObject_def)

lemma asString_Some: "asString x = Some n \<longleftrightarrow> x = Some (JStr n)"
  by (cases x rule: asString.cases) auto

lemma asString_None: "asString x = None \<longleftrightarrow> (\<nexists>n. x = Some (JStr n))"
  by (cases x rule: asString.cases) auto


section \<open>Host: Delete\<close>

text \<open>
  C4. A Delete with a known (non-empty) identifier sends one DELETE request to the item
  endpoint. When the answer has status 200 or 204 the call reports no error and removes
  the resource from state; for any other status it adds an API error that carries the
  status line and the response body, and the state, identifier included, stays as it was.
\<close>

theorem host_Delete_status:
  assumes gd: "\<not> HasError gd"
    and id: "ID st = Known i" "i \<noteq> []"
    and url: "urlError w (BaseURL t @ ''/api/v1/assets/hosts/'' @ i @ ''/'') = None"
    and rq: "rq = \<lparr>Method = ''DELETE'', URL = BaseURL t @ ''/api/v1/assets/hosts/'' @ i @ ''/'',
                   Header = [(''Accept'', ''application/json''),
                             (''Authorization'', ''Bearer '' @ Token t)],
                   ReqBody = None\<rparr>"
    and resp: "roundTrip w rq = Inr r"
  shows "sent (host_Delete w t (gd, st)) = [rq]
    \<and> (StatusCode r = 200 \<or> StatusCode r = 204 \<longrightarrow>
           \<not> HasError (diags (host_Delete w t (gd, st)))
           \<and> effect (host_Delete w t (gd, st)) = StateRemoved
           \<and> state_after (Some st) (effect (host_Delete w t (gd, st))) = None)
    \<and> (StatusCode r \<noteq> 200 \<and> StatusCode r \<noteq> 204 \<longrightarrow>
           diags (host_Delete w t (gd, st)) =
             Append [] gd @ [ErrorDiag ''API Error''
               (''Unexpected status code: '' @ Status r @ '', Response: '' @ Body r)]
           \<and> effect (host_Delete w t (gd, st)) = Untouched
           \<and> state_after (Some st) (effect (host_Delete w t (gd, st))) = Some st)"
  using assms
  by (auto simp: host_Delete_def Let_def NewRequest_def Header_Set_def Append_Nil_noerr AddError_fresh)

theorem host_Delete_status_witness:
  "state_after (Some web1)
     (effect (host_Delete
        (answering \<lparr>StatusCode = 204, Status = ''204 No Content'', Body = [],
                    BodyJSON = Inl ''EOF''\<rparr>) js ([], web1))) = None
   \<and> state_after (Some web1)
     (effect (host_Delete
        (answering \<lparr>StatusCode = 404, Status = ''404 Not Found'', Body = ''gone'',
                    BodyJSON = Inl ''invalid character''\<rparr>) js ([], web1))) = Some web1
   \<and> diags (host_Delete
        (answering \<lparr>StatusCode = 404, Status = ''404 Not Found'', Body = ''gone'',
                    BodyJSON = Inl ''invalid character''\<rparr>) js ([], web1))
       = [ErrorDiag ''API Error'' ''Unexpected status code: 404 Not Found, Response: gone'']"
proof -
  have gd: "\<not> HasError []"
    by (simp add: HasError_def)
  have id: "ID web1 = Known ''h-1''" "''h-1'' \<noteq> []"
    by (simp_all add: web1_def)
  have url: "urlError (answering r) (BaseURL js @ ''/api/v1/assets/hosts/'' @ ''h-1'' @ ''/'') = None"
    for r by (simp add: answering_def)
  have resp: "roundTrip (answering r) rq = Inr r" for r rq
    by (simp add: answering_def)
  show ?thesis
    using host_Delete_status [OF gd id url refl resp,
            of "\<lparr>StatusCode = 204, Status = ''204 No Content'', Body = [], BodyJSON = Inl ''EOF''\<rparr>"]
          host_Delete_status [OF gd id url refl resp,
            of "\<lparr>StatusCode = 404, Status = ''404 Not Found'', Body = ''gone'',
                 BodyJSON = Inl ''invalid character''\<rparr>"]
    by simp
qed

section \<open>Host: Read\<close>

lemma host_Read_sent:
  assumes "sent (host_Read w t (gd, st)) = [rq]"
  shows "\<not> HasError gd
         \<and> urlError w (BaseURL t @ ''/api/v1/assets/hosts/'' @ ValueString (ID st) @ ''/'') = None
         \<and> rq = \<lparr>Method = ''GET'',
                  URL = BaseURL t @ ''/api/v1/assets/hosts/'' @ ValueString (ID st) @ ''/'',
                  Header = [(''Accept'', ''application/json''),
                            (''Authorization'', ''Bearer '' @ Token t)],
                  ReqBody = None\<rparr>"
  using assms
  by (auto simp: host_Read_def Let_def NewRequest_def Header_Set_def Append_Nil_noerr
           split: if_splits option.splits sum.splits)

lemma host_Read_run:
  assumes "\<not> HasError gd"
    and "urlError w (BaseURL t @ ''/api/v1/assets/hosts/'' @ ValueString (ID st) @ ''/'') = None"
    and "roundTrip w \<lparr>Method = ''GET'',
                  URL = BaseURL t @ ''/api/v1/assets/hosts/'' @ ValueString (ID st) @ ''/'',
                  Header = [(''Accept'', ''application/json''),
                            (''Authorization'', ''Bearer '' @ Token t)],
                  ReqBody = None\<rparr> = Inr r"
  shows "StatusCode r \<noteq> 200 \<Longrightarrow> diags (host_Read w t (gd, st)) = 
           Append [] gd @ [ErrorDiag ''API Error''
                     (''Unexpected status code: '' @ Status r @ '', Response: '' @ Body r)]
           \<and> effect (host_Read w t (gd, st)) = Untouched"
   and "StatusCode r = 200 \<Longrightarrow> decodeObject (BodyJSON r) = Inl err \<Longrightarrow>
            effect (host_Read w t (gd, st)) = Untouched"
   and "StatusCode r = 200 \<Longrightarrow> decodeObject (BodyJSON r) = Inr result \<Longrightarrow>
            effect (host_Read w t (gd, st)) = 
              StateSet (st\<lparr>Name := (case asString (result ''name'') of Some n \<Rightarrow> Known n | _ \<Rightarrow> Name st),
                    IP := (case asString (result ''ip'') of Some n \<Rightarrow> Known n | _ \<Rightarrow> IP st),
                    Platform := (case asString (result ''platform'') of Some n \<Rightarrow> Known n | _ \<Rightarrow> Platform st)\<rparr>)"
  using assms
  by (simp_all add: host_Read_def Let_def NewRequest_def Header_Set_def Append_Nil_noerr
          AddError_fresh split: option.splits)

text \<open>
  C5. When a Read has sent its request and the answer has status 200, the state written
  back differs from the prior state at most in \<open>Name\<close>, \<open>IP\<close> and \<open>Platform\<close>: each of
  them takes the string stored under \<^verbatim>\<open>name\<close>, \<^verbatim>\<open>ip\<close>, \<^verbatim>\<open>platform\<close> of the response object
  when there is one and keeps its prior value otherwise; \<open>ID\<close>, \<open>NodesDisplay\<close> and
  \<open>Protocols\<close> keep their prior values. For any other status the call adds an API error
  with the status line and the body, and the state is unchanged.
\<close>

theorem host_Read_frame:
  assumes sent: "sent (host_Read w t (gd, st)) = [rq]"
    and resp: "roundTrip w rq = Inr r"
  shows "(StatusCode r = 200 \<longrightarrow>
           (\<exists>m. state_after (Some st) (effect (host_Read w t (gd, st))) = Some m
              \<and> ID m = ID st \<and> NodesDisplay m = NodesDisplay st \<and> Protocols m = Protocols st
              \<and> (\<forall>kvs n. BodyJSON r = Inr (JObj kvs) \<and> field kvs ''name'' = Some (JStr n)
                    \<longrightarrow> Name m = Known n)
              \<and> ((\<nexists>kvs n. BodyJSON r = Inr (JObj kvs) \<and> field kvs ''name'' = Some (JStr n))
                    \<longrightarrow> Name m = Name st)
              \<and> (\<forall>kvs n. BodyJSON r = Inr (JObj kvs) \<and> field kvs ''ip'' = Some (JStr n)
                    \<longrightarrow> IP m = Known n)
              \<and> ((\<nexists>kvs n. BodyJSON r = Inr (JObj kvs) \<and> field kvs ''ip'' = Some (JStr n))
                    \<longrightarrow> IP m = IP st)
              \<and> (\<forall>kvs n. BodyJSON r = Inr (JObj kvs) \<and> field kvs ''platform'' = Some (JStr n)
                    \<longrightarrow> Platform m = Known n)
              \<and> ((\<nexists>kvs n. BodyJSON r = Inr (JObj kvs) \<and> field kvs ''platform'' = Some (JStr n))
                    \<longrightarrow> Platform m = Platform st)))
       \<and> (StatusCode r \<noteq> 200 \<longrightarrow>
            diags (host_Read w t (gd, st)) =
              Append [] gd @ [ErrorDiag ''API Error''
                (''Unexpected status code: '' @ Status r @ '', Response: '' @ Body r)]
            \<and> effect (host_Read w t (gd, st)) = Untouched
            \<and> state_after (Some st) (effect (host_Read w t (gd, st))) = Some st)"
proof -
  note s = host_Read_sent [OF sent]
  from s resp have r: "roundTrip w \<lparr>Method = ''GET'',
                  URL = BaseURL t @ ''/api/v1/assets/hosts/'' @ ValueString (ID st) @ ''/'',
                  Header = [(''Accept'', ''application/json''),
                            (''Authorization'', ''Bearer '' @ Token t)],
                  ReqBody = None\<rparr> = Inr r" by simp
  note run = host_Read_run [OF conjunct1 [OF s] conjunct1 [OF conjunct2 [OF s]] r]
  show ?thesis
  proof (cases "StatusCode r = 200")
    case False
    then show ?thesis
      using run(1) by simp
  next
    case ok: True
    show ?thesis
    proof (cases "decodeObject (BodyJSON r)")
      case (Inl err)
      then have "\<nexists>kvs. BodyJSON r = Inr (JObj kvs)"
        by (auto simp: decodeObject_def)
      with run(2) [OF ok Inl] ok show ?thesis
        by simp
    next
      case (Inr res)
      then consider "BodyJSON r = Inr JNull" "res = (\<lambda>k. None)"
        | kvs where "BodyJSON r = Inr (JObj kvs)" "res = field kvs"
        by (auto simp: decodeObject_Inr)
      then show ?thesis
      proof cases
        case 1
        with run(3) [OF ok Inr] ok show ?thesis by simp
      next
        case 2
        with run(3) [OF ok Inr] ok show ?thesis
          by (auto simp: asString_Some asString_None split: option.splits)
      qed
    qed
  qed
qed


theorem host_Read_frame_witness:
  "(\<exists>m. state_after (Some web1)
          (effect (host_Read
             (answering \<lparr>StatusCode = 200, Status = ''200 OK'', Body = ''{...}'',
                BodyJSON = Inr (JObj [(''name'', JStr ''web-1b''), (''ip'', JNum 7)])\<rparr>)
             js ([], web1))) = Some m
        \<and> ID m = Known ''h-1'' \<and> Name m = Known ''web-1b'' \<and> IP m = Known ''10.0.0.5''
        \<and> Platform m = Known ''Linux'')
   \<and> state_after (Some web1)
        (effect (host_Read
           (answering \<lparr>StatusCode = 500, Status = ''500 Internal Server Error'', Body = ''oops'',
              BodyJSON = Inl ''invalid character''\<rparr>) js ([], web1))) = Some web1"
proof -
  let ?rq = "\<lparr>Method = ''GET'', URL = ''https://js.example.com/api/v1/assets/hosts/h-1/'',
              Header = [(''Accept'', ''application/json''), (''Authorization'', ''Bearer tok'')],
              ReqBody = None\<rparr>"
  have sent: "sent (host_Read (answering r) js ([], web1)) = [?rq]" for r
    by (simp add: host_Read_def Let_def NewRequest_def Header_Set_def HasError_def
          answering_def js_def web1_def split: sum.splits option.splits)
  have resp: "roundTrip (answering r) ?rq = Inr r" for r
    by (simp add: answering_def)
  show ?thesis
    using host_Read_frame [OF sent resp,
            of "\<lparr>StatusCode = 200, Status = ''200 OK'', Body = ''{...}'',
                BodyJSON = Inr (JObj [(''name'', JStr ''web-1b''), (''ip'', JNum 7)])\<rparr>"]
          host_Read_frame [OF sent resp,
            of "\<lparr>StatusCode = 500, Status = ''500 Internal Server Error'', Body = ''oops'',
              BodyJSON = Inl ''invalid character''\<rparr>"]
    by (auto simp: field_def web1_def)
qed

section \<open>Host: Create\<close>





text \<open>
  C7. A protocol entry whose optional \<^verbatim>\<open>port\<close> was left out reaches Create as an object
  with a null \<^verbatim>\<open>port\<close> attribute; the loop tests whether the key is in the attribute map,
  not whether the value is null, and writes \<^verbatim>\<open>"port": 0\<close> into the request body.
\<close>

theorem host_Create_null_port_is_sent:
  "protocolsOf [ObjectAttr [(''name'', StringAttr (Known ''ssh'')), (''port'', Int64Attr Null)]]
     = Inr [JObj [(''name'', JStr ''ssh''), (''port'', JNum 0)]]
   \<and> (\<exists>out. host_Create
         (answering \<lparr>StatusCode = 201, Status = ''201 Created'', Body = ''{...}'',
                     BodyJSON = Inr (JObj [(''id'', JStr ''h-9'')])\<rparr>)
         js ([], web1\<lparr>ID := Unknown,
                       Protocols := Known [ObjectAttr [(''name'', StringAttr (Known ''ssh'')),
                                                       (''port'', Int64Attr Null)]]\<rparr>) = Inr out
       \<and> map ReqBody (sent out) =
           [Some (JObj [(''address'', JStr ''10.0.0.5''), (''is_active'', JBool True),
                 (''name'', JStr ''web-1''), (''nodes_display'', JArr [JStr ''/Default'']),
                 (''platform'', JStr ''Linux''),
                 (''protocols'', JArr [JObj [(''name'', JStr ''ssh''), (''port'', JNum 0)]])])])"
  by (simp add: host_Create_def Let_def NewRequest_def Header_Set_def HasError_def
        answering_def js_def web1_def protocolOf_def nodesDisplayOf_def assetOf_def
        marshalSlice_def decodeObject_def field_def)


section \<open>Account: Create\<close>

lemma validAssetsOf_Inl:
  "validAssetsOf tbl as = Inl bad \<Longrightarrow>
     \<exists>a \<in> set as. bad = Trim (String_of tbl a) cutset \<and> \<not> uuid_Parse bad"
  by (induction as) (auto simp: Let_def split: if_splits sum.splits)

lemma validAssetsOf_Inr:
  "validAssetsOf tbl as = Inr vs \<Longrightarrow>
     vs = map (\<lambda>a. Trim (String_of tbl a) cutset) as
     \<and> (\<forall>a \<in> set as. uuid_Parse (Trim (String_of tbl a) cutset))"
  by (induction as arbitrary: vs) (auto simp: Let_def split: if_splits sum.splits)

lemma isValidationError_isError: "isValidationError d \<Longrightarrow> isError d"
  by (cases d) simp_all

lemma no_validation_error: "\<not> HasError gd \<Longrightarrow> \<not> list_ex isValidationError (Append [] gd)"
  using Append_Nil_noerr [of gd] isValidationError_isError
  by (auto simp: HasError_def list_ex_iff)

lemma list_ex_snoc: "list_ex P (xs @ [x]) \<longleftrightarrow> list_ex P xs \<or> P x"
  by (auto simp: list_ex_iff)

text \<open>
  C2 (amended). When the plan decodes, Create reports the validation error exactly when
  some element of the assets list, rendered with \<^verbatim>\<open>String()\<close> and trimmed of leading and
  trailing straight and curly double quotes, is rejected by \<^verbatim>\<open>uuid.Parse\<close>; and then no
  HTTP request is sent and the state is not written.
\<close>

theorem account_Create_validation:
  assumes gd: "\<not> HasError gd"
  shows "(list_ex isValidationError (diags (account_Create tbl w t (gd, plan)))
            \<longleftrightarrow> (\<exists>a \<in> set (Elements (acc_Assets plan)).
                    \<not> uuid_Parse (Trim (String_of tbl a) cutset)))
       \<and> (list_ex isValidationError (diags (account_Create tbl w t (gd, plan)))
            \<longrightarrow> sent (account_Create tbl w t (gd, plan)) = []
              \<and> effect (account_Create tbl w t (gd, plan)) = Untouched)"
proof (cases "validAssetsOf tbl (Elements (acc_Assets plan))")
  case (Inl bad)
  from validAssetsOf_Inl [OF Inl] have ex:
    "\<exists>a \<in> set (Elements (acc_Assets plan)). \<not> uuid_Parse (Trim (String_of tbl a) cutset)"
    by blast
  have "account_Create tbl w t (gd, plan) =
          \<lparr>diags = Append [] gd @ [ErrorDiag ''Invalid UUID''
                     (''Asset '' @ [CHR 0x27] @ bad @ [CHR 0x27] @ '' is not a valid UUID'')],
           effect = Untouched, sent = []\<rparr>"
    using gd Inl by (simp add: account_Create_def Let_def Append_Nil_noerr AddError_fresh)
  with ex show ?thesis
    by (simp add: list_ex_snoc)
next
  case (Inr validAssets)
  from validAssetsOf_Inr [OF Inr] have all:
    "\<forall>a \<in> set (Elements (acc_Assets plan)). uuid_Parse (Trim (String_of tbl a) cutset)"
    by blast
  have nv: "\<not> list_ex isValidationError (Append [] gd)"
    using gd by (rule no_validation_error)
  have ne: "\<not> HasError (Append [] gd)"
    using gd by (simp add: Append_Nil_noerr)
  have "\<not> list_ex isValidationError (diags (account_Create tbl w t (gd, plan)))"
    using Inr nv ne
    by (simp add: account_Create_def Let_def AddError_fresh list_ex_snoc
          split: sum.splits option.splits)
  with all show ?thesis
    by simp
qed



lemma uuid_Parse_plain: "uuid_Parse ''550e8400-e29b-41d4-a716-446655440000''"
  by (simp add: uuid_Parse_def xtob_def xvalid_def)

lemma uuid_Parse_curly: "\<not> uuid_Parse curlyQuoted"
  by (simp add: uuid_Parse_def curlyQuoted_def)

lemma Trim_String_of_plain:
  "Trim (String_of tbl (Known ''550e8400-e29b-41d4-a716-446655440000'')) cutset
     = ''550e8400-e29b-41d4-a716-446655440000''"
  by (simp add: Quote_def headRune_def appendEscapedRune_def IsPrint_def RuneError_def Let_def
        Trim_def cutset_def lastRune_def DecodeLastRuneInString_def RuneStart_def)

lemma Trim_String_of_curly:
  "Trim (String_of quotesPrintable (Known curlyQuoted)) cutset
     = ''550e8400-e29b-41d4-a716-446655440000''"
  by (simp add: Quote_def curlyQuoted_def headRune_def appendEscapedRune_def IsPrint_def
        quotesPrintable_def RuneError_def Let_def
        Trim_def cutset_def lastRune_def DecodeLastRuneInString_def RuneStart_def)

lemma Trim_null: "Trim (String_of tbl Null) cutset = ''<null>''"
  by (simp add: Trim_def cutset_def lastRune_def headRune_def Let_def)

lemma uuid_Parse_null: "\<not> uuid_Parse ''<null>''"
  by (simp add: uuid_Parse_def)

lemma decodeObjects_created:
  "decodeObjects (BodyJSON created) = Inr [field [(''asset'', JStr ''web-1(10.0.0.5)''),
                                          (''state'', JStr ''created''),
                                          (''changed'', JBool True)]]"
  by (simp add: decodeObjects_def created_def)

lemma account_Create_valid:
  assumes "validAssetsOf tbl (Elements (acc_Assets plan)) = Inr validAssets"
  shows "account_Create tbl (answering created) t ([], plan) =
           \<lparr>diags = [], effect = StateSet plan,
            sent = [\<lparr>Method = ''POST'',
                     URL = ''http://172.30.9.65/api/v1/accounts/accounts/bulk/'',
                     Header = [(''Content-Type'', ''application/json''),
                               (''Authorization'', ''Bearer '' @ Token t)],
                     ReqBody = Some (JObj [(''assets'', marshalSlice (map JStr validAssets)),
                                (''is_active'', JBool (ValueBool (acc_Is_active plan))),
                                (''name'', JStr (ValueString (acc_Name plan))),
                                (''privileged'', JBool (ValueBool (acc_Privileged plan))),
                                (''username'', JStr (ValueString (acc_Username plan)))])\<rparr>]\<rparr>"
  using assms
  by (simp add: account_Create_def Let_def HasError_def answering_def NewRequest_def
        Header_Set_def RoundTrip_def decodeObjects_created field_def)
     (simp add: created_def)

text \<open>
  C2, as stated, fails on an asset written between curly quotes: the element is not a
  UUID for \<^verbatim>\<open>uuid.Parse\<close>, yet Create strips the quotes, reports no validation error and
  sends the request with the bare UUID.
\<close>

theorem account_Create_curly_quotes_counterexample:
  "\<not> uuid_Parse curlyQuoted
   \<and> \<not> list_ex isValidationError
         (diags (account_Create quotesPrintable (answering created) js
                   ([], ops\<lparr>acc_Assets := Known [Known curlyQuoted]\<rparr>)))
   \<and> map ReqBody (sent (account_Create quotesPrintable (answering created) js
                   ([], ops\<lparr>acc_Assets := Known [Known curlyQuoted]\<rparr>)))
       = [Some (JObj [(''assets'', JArr [JStr ''550e8400-e29b-41d4-a716-446655440000'']),
                      (''is_active'', JBool True), (''name'', JStr ''ops''),
                      (''privileged'', JBool True), (''username'', JStr ''root'')])]"
proof -
  have "validAssetsOf quotesPrintable (Elements (acc_Assets (ops\<lparr>acc_Assets := Known [Known curlyQuoted]\<rparr>)))
          = Inr [''550e8400-e29b-41d4-a716-446655440000'']"
    by (simp add: Let_def Trim_String_of_curly uuid_Parse_plain del: String_of.simps)
  from account_Create_valid [OF this] show ?thesis
    by (simp add: uuid_Parse_curly marshalSlice_def ops_def)
qed

theorem account_Create_validation_witness:
  "\<not> HasError []
   \<and> list_ex isValidationError
       (diags (account_Create quotesPrintable (answering created) js
                 ([], ops\<lparr>acc_Assets := Known [Known ''550e8400-e29b-41d4-a716-446655440000'', Null]\<rparr>)))
   \<and> sent (account_Create quotesPrintable (answering created) js
                 ([], ops\<lparr>acc_Assets := Known [Known ''550e8400-e29b-41d4-a716-446655440000'', Null]\<rparr>)) = []
   \<and> \<not> list_ex isValidationError
       (diags (account_Create quotesPrintable (answering created) js ([], ops)))"
proof -
  have h: "\<not> HasError []"
    by (simp add: HasError_def)
  show ?thesis
    using account_Create_validation [OF h, of quotesPrintable "answering created" js
            "ops\<lparr>acc_Assets := Known [Known ''550e8400-e29b-41d4-a716-446655440000'', Null]\<rparr>"]
          account_Create_validation [OF h, of quotesPrintable "answering created" js ops]
    by (simp add: h Trim_String_of_plain Trim_null uuid_Parse_null uuid_Parse_plain ops_def
          del: String_of.simps)
qed

text \<open>
  C1. The account Create does not read the base URL of the transport: with the provider
  configured for \<^verbatim>\<open>https://js.example.com\<close> the bulk request still goes to the address
  written in the source.
\<close>

theorem account_Create_url_is_fixed:
  "map URL (sent (account_Create tbl (answering created) js ([], ops)))
     = [''http://172.30.9.65/api/v1/accounts/accounts/bulk/'']
   \<and> BaseURL js @ ''/api/v1/accounts/accounts/bulk/''
     = ''https://js.example.com/api/v1/accounts/accounts/bulk/''"
proof -
  have "validAssetsOf tbl (Elements (acc_Assets ops)) = Inr [''550e8400-e29b-41d4-a716-446655440000'']"
    by (simp add: ops_def Let_def Trim_String_of_plain uuid_Parse_plain del: String_of.simps)
  from account_Create_valid [OF this] show ?thesis
    by (simp add: js_def)
qed


section \<open>Query: filters\<close>

lemma addFilter_fresh:
  "fst row \<notin> fst ` set acc \<Longrightarrow>
     addFilter row acc = acc @ (if fst (snd row) then [] else [(fst row, [snd (snd row)])])"
  by (simp add: addFilter_def Values_Add_def)

lemma fold_addFilter:
  assumes "distinct (map fst rows)" and "fst ` set rows \<inter> fst ` set acc = {}"
  shows "fold addFilter rows acc =
           acc @ map (\<lambda>row. (fst row, [snd (snd row)])) (filter (\<lambda>row. \<not> fst (snd row)) rows)"
  using assms
proof (induction rows arbitrary: acc)
  case Nil
  then show ?case by simp
next
  case (Cons row rows)
  from Cons.prems have fresh: "fst row \<notin> fst ` set acc"
    by auto
  let ?acc = "acc @ (if fst (snd row) then [] else [(fst row, [snd (snd row)])])"
  from Cons.prems have "distinct (map fst rows)" and "fst ` set rows \<inter> fst ` set ?acc = {}"
    by auto
  from Cons.IH [OF this] show ?case
    by (simp add: addFilter_fresh [OF fresh])
qed

lemma distinct_filters: "distinct (map fst (filters data))"
  by (simp add: filters_def)

lemma queryParamsOf_eq:
  "queryParamsOf data =
     map (\<lambda>row. (fst row, [snd (snd row)])) (filter (\<lambda>row. \<not> fst (snd row)) (filters data))"
  unfolding queryParamsOf_def
  using fold_addFilter [OF distinct_filters, of data "[]"] by simp

lemma QueryEscape_name: "QueryEscape ''name'' = ''name''"
  by (simp add: QueryEscape_def escapeByte_def shouldEscape_def)

lemma hostSuggestions_Read_URL:
  "rq \<in> set (sent (hostSuggestions_Read w t (gd, data))) \<Longrightarrow>
     URL rq = BaseURL t @ ''/api/v1/assets/hosts/suggestions/'' @ ''?'' @ Encode (queryParamsOf data)"
  by (auto simp: hostSuggestions_Read_def Let_def NewRequest_def RoundTrip_def Header_Set_def
           split: if_splits option.splits sum.splits)

lemma queryParams_concat:
  "map (\<lambda>row. (fst row, [snd (snd row)])) (filter (\<lambda>row. \<not> fst (snd row)) xs) =
     concat (map (\<lambda>(k, n, v). if n then [] else [(k, [v])]) xs)"
  by (induction xs) auto

lemma insort_key_map_fst:
  "insort_key fst (fst x, [snd (snd x)]) (map (\<lambda>row. (fst row, [snd (snd row)])) ys) =
     map (\<lambda>row. (fst row, [snd (snd row)])) (insort_key fst x ys)"
  by (induction ys) simp_all

lemma sort_key_map_fst:
  "sort_key fst (map (\<lambda>row. (fst row, [snd (snd row)])) xs) =
     map (\<lambda>row. (fst row, [snd (snd row)])) (sort_key fst xs)"
  by (induction xs) (simp_all add: insort_key_map_fst)

lemma Encode_rows:
  "Encode (map (\<lambda>row. (fst row, [snd (snd row)])) (filter (\<lambda>row. \<not> fst (snd row)) xs)) =
     joinAmp (concat (map (\<lambda>(k, n, v). if n then [] else [QueryEscape k @ ''='' @ QueryEscape v])
                          (sort_key fst xs)))"
proof -
  have "concat (map (\<lambda>kv. map (\<lambda>v. QueryEscape (fst kv) @ ''='' @ QueryEscape v) (snd kv))
                    (map (\<lambda>row. (fst row, [snd (snd row)])) (filter (\<lambda>row. \<not> fst (snd row)) ys))) =
        concat (map (\<lambda>(k, n, v). if n then [] else [QueryEscape k @ ''='' @ QueryEscape v]) ys)"
    for ys :: "(string \<times> bool \<times> string) list"
    by (induction ys) auto
  then show ?thesis
    unfolding Encode_def sort_key_map_fst filter_sort [symmetric] by simp
qed

lemma sorted_filters:
  "sort_key fst (filters data) =
     [
      (''address'', IsNull (q_Address data), ValueString (q_Address data)),
      (''category'', IsNull (q_Category data), ValueString (q_Category data)),
      (''change_secret_enabled'', IsNull (q_ChangeSecretEnabled data), ValueString (q_ChangeSecretEnabled data)),
      (''domain'', IsNull (q_Domain data), ValueString (q_Domain data)),
      (''domain_enabled'', IsNull (q_DomainEnabled data), ValueString (q_DomainEnabled data)),
      (''exclude_platform'', IsNull (q_ExcludePlatform data), ValueString (q_ExcludePlatform data)),
      (''gather_accounts_enabled'', IsNull (q_GatherAccountsEnabled data), ValueString (q_GatherAccountsEnabled data)),
      (''gather_facts_enabled'', IsNull (q_GatherFactsEnabled data), ValueString (q_GatherFactsEnabled data)),
      (''id'', IsNull (q_ID data), ValueString (q_ID data)),
      (''is_active'', IsNull (q_IsActive data), ValueString (q_IsActive data)),
      (''is_gateway'', IsNull (q_IsGateway data), ValueString (q_IsGateway data)),
      (''limit'', IsNull (q_Limit data), Sprintf_d (ValueInt64 (q_Limit data))),
      (''name'', IsNull (q_Name data), ValueString (q_Name data)),
      (''offset'', IsNull (q_Offset data), Sprintf_d (ValueInt64 (q_Offset data))),
      (''order'', IsNull (q_Order data), ValueString (q_Order data)),
      (''ping_enabled'', IsNull (q_PingEnabled data), ValueString (q_PingEnabled data)),
      (''platform'', IsNull (q_Platform data), ValueString (q_Platform data)),
      (''protocols'', IsNull (q_Protocols data), ValueString (q_Protocols data)),
      (''push_account_enabled'', IsNull (q_PushAccountEnabled data), ValueString (q_PushAccountEnabled data)),
      (''search'', IsNull (q_Search data), ValueString (q_Search data)),
      (''type'', IsNull (q_Type data), ValueString (q_Type data)),
      (''verify_account_enabled'', IsNull (q_VerifyAccountEnabled data), ValueString (q_VerifyAccountEnabled data))]"
  by (simp add: filters_def)

lemma QueryEscape_keys:
  "QueryEscape ''id'' = ''id''"
  "QueryEscape ''name'' = ''name''"
  "QueryEscape ''address'' = ''address''"
  "QueryEscape ''is_active'' = ''is_active''"
  "QueryEscape ''type'' = ''type''"
  "QueryEscape ''category'' = ''category''"
  "QueryEscape ''platform'' = ''platform''"
  "QueryEscape ''is_gateway'' = ''is_gateway''"
  "QueryEscape ''exclude_platform'' = ''exclude_platform''"
  "QueryEscape ''domain'' = ''domain''"
  "QueryEscape ''protocols'' = ''protocols''"
  "QueryEscape ''domain_enabled'' = ''domain_enabled''"
  "QueryEscape ''ping_enabled'' = ''ping_enabled''"
  "QueryEscape ''gather_facts_enabled'' = ''gather_facts_enabled''"
  "QueryEscape ''change_secret_enabled'' = ''change_secret_enabled''"
  "QueryEscape ''push_account_enabled'' = ''push_account_enabled''"
  "QueryEscape ''verify_account_enabled'' = ''verify_account_enabled''"
  "QueryEscape ''gather_accounts_enabled'' = ''gather_accounts_enabled''"
  "QueryEscape ''search'' = ''search''"
  "QueryEscape ''order'' = ''order''"
  "QueryEscape ''limit'' = ''limit''"
  "QueryEscape ''offset'' = ''offset''"
  by (simp_all add: QueryEscape_def escapeByte_def shouldEscape_def)

text \<open>
  C8 (amended). The query parameters are, in source order, one pair per filter attribute
  that is not null, under the key of that attribute and with its value (the decimal
  rendering for \<^verbatim>\<open>limit\<close> and \<^verbatim>\<open>offset\<close>): for each of the 22 filters, its key is among
  the parameters if and only if its attribute is not null. So a null filter is never
  sent, while a filter set to the empty string is sent with an empty value. The query
  string lists the parameters sorted by key, each as the key, \<^verbatim>\<open>=\<close> and the query-escaped
  value, joined by \<^verbatim>\<open>&\<close>. When only \<^verbatim>\<open>name\<close> is set, the parameters are the single pair
  of \<^verbatim>\<open>name\<close> and its value, and the query string is \<^verbatim>\<open>name=\<close> followed by the
  query-escaped value. Every request of the lookup carries the encoded parameters
  after the \<^verbatim>\<open>?\<close> of its URL.
\<close>

theorem query_filters_serialized:
  "queryParamsOf data =
     concat [
        if IsNull (q_ID data) then [] else [(''id'', [ValueString (q_ID data)])],
        if IsNull (q_Name data) then [] else [(''name'', [ValueString (q_Name data)])],
        if IsNull (q_Address data) then [] else [(''address'', [ValueString (q_Address data)])],
        if IsNull (q_IsActive data) then [] else [(''is_active'', [ValueString (q_IsActive data)])],
        if IsNull (q_Type data) then [] else [(''type'', [ValueString (q_Type data)])],
        if IsNull (q_Category data) then [] else [(''category'', [ValueString (q_Category data)])],
        if IsNull (q_Platform data) then [] else [(''platform'', [ValueString (q_Platform data)])],
        if IsNull (q_IsGateway data) then [] else [(''is_gateway'', [ValueString (q_IsGateway data)])],
        if IsNull (q_ExcludePlatform data) then [] else [(''exclude_platform'', [ValueString (q_ExcludePlatform data)])],
        if IsNull (q_Domain data) then [] else [(''domain'', [ValueString (q_Domain data)])],
        if IsNull (q_Protocols data) then [] else [(''protocols'', [ValueString (q_Protocols data)])],
        if IsNull (q_DomainEnabled data) then [] else [(''domain_enabled'', [ValueString (q_DomainEnabled data)])],
        if IsNull (q_PingEnabled data) then [] else [(''ping_enabled'', [ValueString (q_PingEnabled data)])],
        if IsNull (q_GatherFactsEnabled data) then [] else [(''gather_facts_enabled'', [ValueString (q_GatherFactsEnabled data)])],
        if IsNull (q_ChangeSecretEnabled data) then [] else [(''change_secret_enabled'', [ValueString (q_ChangeSecretEnabled data)])],
        if IsNull (q_PushAccountEnabled data) then [] else [(''push_account_enabled'', [ValueString (q_PushAccountEnabled data)])],
        if IsNull (q_VerifyAccountEnabled data) then [] else [(''verify_account_enabled'', [ValueString (q_VerifyAccountEnabled data)])],
        if IsNull (q_GatherAccountsEnabled data) then [] else [(''gather_accounts_enabled'', [ValueString (q_GatherAccountsEnabled data)])],
        if IsNull (q_Search data) then [] else [(''search'', [ValueString (q_Search data)])],
        if IsNull (q_Order data) then [] else [(''order'', [ValueString (q_Order data)])],
        if IsNull (q_Limit data) then [] else [(''limit'', [Sprintf_d (ValueInt64 (q_Limit data))])],
        if IsNull (q_Offset data) then [] else [(''offset'', [Sprintf_d (ValueInt64 (q_Offset data))])]]
   \<and> (''id'' \<in> fst ` set (queryParamsOf data)) = (\<not> IsNull (q_ID data))
   \<and> (''name'' \<in> fst ` set (queryParamsOf data)) = (\<not> IsNull (q_Name data))
   \<and> (''address'' \<in> fst ` set (queryParamsOf data)) = (\<not> IsNull (q_Address data))
   \<and> (''is_active'' \<in> fst ` set (queryParamsOf data)) = (\<not> IsNull (q_IsActive data))
   \<and> (''type'' \<in> fst ` set (queryParamsOf data)) = (\<not> IsNull (q_Type data))
   \<and> (''category'' \<in> fst ` set (queryParamsOf data)) = (\<not> IsNull (q_Category data))
   \<and> (''platform'' \<in> fst ` set (queryParamsOf data)) = (\<not> IsNull (q_Platform data))
   \<and> (''is_gateway'' \<in> fst ` set (queryParamsOf data)) = (\<not> IsNull (q_IsGateway data))
   \<and> (''exclude_platform'' \<in> fst ` set (queryParamsOf data)) = (\<not> IsNull (q_ExcludePlatform data))
   \<and> (''domain'' \<in> fst ` set (queryParamsOf data)) = (\<not> IsNull (q_Domain data))
   \<and> (''protocols'' \<in> fst ` set (queryParamsOf data)) = (\<not> IsNull (q_Protocols data))
   \<and> (''domain_enabled'' \<in> fst ` set (queryParamsOf data)) = (\<not> IsNull (q_DomainEnabled data))
   \<and> (''ping_enabled'' \<in> fst ` set (queryParamsOf data)) = (\<not> IsNull (q_PingEnabled data))
   \<and> (''gather_facts_enabled'' \<in> fst ` set (queryParamsOf data)) = (\<not> IsNull (q_GatherFactsEnabled data))
   \<and> (''change_secret_enabled'' \<in> fst ` set (queryParamsOf data)) = (\<not> IsNull (q_ChangeSecretEnabled data))
   \<and> (''push_account_enabled'' \<in> fst ` set (queryParamsOf data)) = (\<not> IsNull (q_PushAccountEnabled data))
   \<and> (''verify_account_enabled'' \<in> fst ` set (queryParamsOf data)) = (\<not> IsNull (q_VerifyAccountEnabled data))
   \<and> (''gather_accounts_enabled'' \<in> fst ` set (queryParamsOf data)) = (\<not> IsNull (q_GatherAccountsEnabled data))
   \<and> (''search'' \<in> fst ` set (queryParamsOf data)) = (\<not> IsNull (q_Search data))
   \<and> (''order'' \<in> fst ` set (queryParamsOf data)) = (\<not> IsNull (q_Order data))
   \<and> (''limit'' \<in> fst ` set (queryParamsOf data)) = (\<not> IsNull (q_Limit data))
   \<and> (''offset'' \<in> fst ` set (queryParamsOf data)) = (\<not> IsNull (q_Offset data))
   \<and> Encode (queryParamsOf data) =
     joinAmp (concat [
        if IsNull (q_Address data) then [] else [''address'' @ ''='' @ QueryEscape (ValueString (q_Address data))],
        if IsNull (q_Category data) then [] else [''category'' @ ''='' @ QueryEscape (ValueString (q_Category data))],
        if IsNull (q_ChangeSecretEnabled data) then [] else [''change_secret_enabled'' @ ''='' @ QueryEscape (ValueString (q_ChangeSecretEnabled data))],
        if IsNull (q_Domain data) then [] else [''domain'' @ ''='' @ QueryEscape (ValueString (q_Domain data))],
        if IsNull (q_DomainEnabled data) then [] else [''domain_enabled'' @ ''='' @ QueryEscape (ValueString (q_DomainEnabled data))],
        if IsNull (q_ExcludePlatform data) then [] else [''exclude_platform'' @ ''='' @ QueryEscape (ValueString (q_ExcludePlatform data))],
        if IsNull (q_GatherAccountsEnabled data) then [] else [''gather_accounts_enabled'' @ ''='' @ QueryEscape (ValueString (q_GatherAccountsEnabled data))],
        if IsNull (q_GatherFactsEnabled data) then [] else [''gather_facts_enabled'' @ ''='' @ QueryEscape (ValueString (q_GatherFactsEnabled data))],
        if IsNull (q_ID data) then [] else [''id'' @ ''='' @ QueryEscape (ValueString (q_ID data))],
        if IsNull (q_IsActive data) then [] else [''is_active'' @ ''='' @ QueryEscape (ValueString (q_IsActive data))],
        if IsNull (q_IsGateway data) then [] else [''is_gateway'' @ ''='' @ QueryEscape (ValueString (q_IsGateway data))],
        if IsNull (q_Limit data) then [] else [''limit'' @ ''='' @ QueryEscape (Sprintf_d (ValueInt64 (q_Limit data)))],
        if IsNull (q_Name data) then [] else [''name'' @ ''='' @ QueryEscape (ValueString (q_Name data))],
        if IsNull (q_Offset data) then [] else [''offset'' @ ''='' @ QueryEscape (Sprintf_d (ValueInt64 (q_Offset data)))],
        if IsNull (q_Order data) then [] else [''order'' @ ''='' @ QueryEscape (ValueString (q_Order data))],
        if IsNull (q_PingEnabled data) then [] else [''ping_enabled'' @ ''='' @ QueryEscape (ValueString (q_PingEnabled data))],
        if IsNull (q_Platform data) then [] else [''platform'' @ ''='' @ QueryEscape (ValueString (q_Platform data))],
        if IsNull (q_Protocols data) then [] else [''protocols'' @ ''='' @ QueryEscape (ValueString (q_Protocols data))],
        if IsNull (q_PushAccountEnabled data) then [] else [''push_account_enabled'' @ ''='' @ QueryEscape (ValueString (q_PushAccountEnabled data))],
        if IsNull (q_Search data) then [] else [''search'' @ ''='' @ QueryEscape (ValueString (q_Search data))],
        if IsNull (q_Type data) then [] else [''type'' @ ''='' @ QueryEscape (ValueString (q_Type data))],
        if IsNull (q_VerifyAccountEnabled data) then [] else [''verify_account_enabled'' @ ''='' @ QueryEscape (ValueString (q_VerifyAccountEnabled data))]])
   \<and> (q_Name data = Known v
          \<and> IsNull (q_ID data)
          \<and> IsNull (q_Address data)
          \<and> IsNull (q_IsActive data)
          \<and> IsNull (q_Type data)
          \<and> IsNull (q_Category data)
          \<and> IsNull (q_Platform data)
          \<and> IsNull (q_IsGateway data)
          \<and> IsNull (q_ExcludePlatform data)
          \<and> IsNull (q_Domain data)
          \<and> IsNull (q_Protocols data)
          \<and> IsNull (q_DomainEnabled data)
          \<and> IsNull (q_PingEnabled data)
          \<and> IsNull (q_GatherFactsEnabled data)
          \<and> IsNull (q_ChangeSecretEnabled data)
          \<and> IsNull (q_PushAccountEnabled data)
          \<and> IsNull (q_VerifyAccountEnabled data)
          \<and> IsNull (q_GatherAccountsEnabled data)
          \<and> IsNull (q_Search data)
          \<and> IsNull (q_Order data)
          \<and> IsNull (q_Limit data)
          \<and> IsNull (q_Offset data)
        \<longrightarrow> queryParamsOf data = [(''name'', [v])]
          \<and> Encode (queryParamsOf data) = ''name='' @ QueryEscape v)
   \<and> (\<forall>rq \<in> set (sent (hostSuggestions_Read w t (gd, data))).
         URL rq = BaseURL t @ ''/api/v1/assets/hosts/suggestions/'' @ ''?''
                    @ Encode (queryParamsOf data))"
proof -
  have eq: "queryParamsOf data =
     map (\<lambda>row. (fst row, [snd (snd row)])) (filter (\<lambda>row. \<not> fst (snd row)) (filters data))"
    by (rule queryParamsOf_eq)
  have A: "queryParamsOf data =
     concat [
        if IsNull (q_ID data) then [] else [(''id'', [ValueString (q_ID data)])],
        if IsNull (q_Name data) then [] else [(''name'', [ValueString (q_Name data)])],
        if IsNull (q_Address data) then [] else [(''address'', [ValueString (q_Address data)])],
        if IsNull (q_IsActive data) then [] else [(''is_active'', [ValueString (q_IsActive data)])],
        if IsNull (q_Type data) then [] else [(''type'', [ValueString (q_Type data)])],
        if IsNull (q_Category data) then [] else [(''category'', [ValueString (q_Category data)])],
        if IsNull (q_Platform data) then [] else [(''platform'', [ValueString (q_Platform data)])],
        if IsNull (q_IsGateway data) then [] else [(''is_gateway'', [ValueString (q_IsGateway data)])],
        if IsNull (q_ExcludePlatform data) then [] else [(''exclude_platform'', [ValueString (q_ExcludePlatform data)])],
        if IsNull (q_Domain data) then [] else [(''domain'', [ValueString (q_Domain data)])],
        if IsNull (q_Protocols data) then [] else [(''protocols'', [ValueString (q_Protocols data)])],
        if IsNull (q_DomainEnabled data) then [] else [(''domain_enabled'', [ValueString (q_DomainEnabled data)])],
        if IsNull (q_PingEnabled data) then [] else [(''ping_enabled'', [ValueString (q_PingEnabled data)])],
        if IsNull (q_GatherFactsEnabled data) then [] else [(''gather_facts_enabled'', [ValueString (q_GatherFactsEnabled data)])],
        if IsNull (q_ChangeSecretEnabled data) then [] else [(''change_secret_enabled'', [ValueString (q_ChangeSecretEnabled data)])],
        if IsNull (q_PushAccountEnabled data) then [] else [(''push_account_enabled'', [ValueString (q_PushAccountEnabled data)])],
        if IsNull (q_VerifyAccountEnabled data) then [] else [(''verify_account_enabled'', [ValueString (q_VerifyAccountEnabled data)])],
        if IsNull (q_GatherAccountsEnabled data) then [] else [(''gather_accounts_enabled'', [ValueString (q_GatherAccountsEnabled data)])],
        if IsNull (q_Search data) then [] else [(''search'', [ValueString (q_Search data)])],
        if IsNull (q_Order data) then [] else [(''order'', [ValueString (q_Order data)])],
        if IsNull (q_Limit data) then [] else [(''limit'', [Sprintf_d (ValueInt64 (q_Limit data))])],
        if IsNull (q_Offset data) then [] else [(''offset'', [Sprintf_d (ValueInt64 (q_Offset data))])]]"
    unfolding eq queryParams_concat by (simp add: filters_def)
  have rows: "(fst row \<in> fst ` set (queryParamsOf data)) = (\<not> fst (snd row))"
    if "row \<in> set (filters data)" for row
  proof
    assume "fst row \<in> fst ` set (queryParamsOf data)"
    then obtain row' where r': "row' \<in> set (filters data)" "\<not> fst (snd row')" "fst row' = fst row"
      unfolding eq by auto
    with that distinct_filters [of data] have "row' = row"
      by (meson distinct_map inj_on_def)
    with r' show "\<not> fst (snd row)" by simp
  next
    assume "\<not> fst (snd row)"
    with that show "fst row \<in> fst ` set (queryParamsOf data)"
      unfolding eq by force
  qed
  have k0: "(''id'' \<in> fst ` set (queryParamsOf data)) = (\<not> IsNull (q_ID data))"
    using rows [of "(''id'', IsNull (q_ID data), ValueString (q_ID data))"] by (simp add: filters_def)
  have k1: "(''name'' \<in> fst ` set (queryParamsOf data)) = (\<not> IsNull (q_Name data))"
    using rows [of "(''name'', IsNull (q_Name data), ValueString (q_Name data))"] by (simp add: filters_def)
  have k2: "(''address'' \<in> fst ` set (queryParamsOf data)) = (\<not> IsNull (q_Address data))"
    using rows [of "(''address'', IsNull (q_Address data), ValueString (q_Address data))"] by (simp add: filters_def)
  have k3: "(''is_active'' \<in> fst ` set (queryParamsOf data)) = (\<not> IsNull (q_IsActive data))"
    using rows [of "(''is_active'', IsNull (q_IsActive data), ValueString (q_IsActive data))"] by (simp add: filters_def)
  have k4: "(''type'' \<in> fst ` set (queryParamsOf data)) = (\<not> IsNull (q_Type data))"
    using rows [of "(''type'', IsNull (q_Type data), ValueString (q_Type data))"] by (simp add: filters_def)
  have k5: "(''category'' \<in> fst ` set (queryParamsOf data)) = (\<not> IsNull (q_Category data))"
    using rows [of "(''category'', IsNull (q_Category data), ValueString (q_Category data))"] by (simp add: filters_def)
  have k6: "(''platform'' \<in> fst ` set (queryParamsOf data)) = (\<not> IsNull (q_Platform data))"
    using rows [of "(''platform'', IsNull (q_Platform data), ValueString (q_Platform data))"] by (simp add: filters_def)
  have k7: "(''is_gateway'' \<in> fst ` set (queryParamsOf data)) = (\<not> IsNull (q_IsGateway data))"
    using rows [of "(''is_gateway'', IsNull (q_IsGateway data), ValueString (q_IsGateway data))"] by (simp add: filters_def)
  have k8: "(''exclude_platform'' \<in> fst ` set (queryParamsOf data)) = (\<not> IsNull (q_ExcludePlatform data))"
    using rows [of "(''exclude_platform'', IsNull (q_ExcludePlatform data), ValueString (q_ExcludePlatform data))"] by (simp add: filters_def)
  have k9: "(''domain'' \<in> fst ` set (queryParamsOf data)) = (\<not> IsNull (q_Domain data))"
    using rows [of "(''domain'', IsNull (q_Domain data), ValueString (q_Domain data))"] by (simp add: filters_def)
  have k10: "(''protocols'' \<in> fst ` set (queryParamsOf data)) = (\<not> IsNull (q_Protocols data))"
    using rows [of "(''protocols'', IsNull (q_Protocols data), ValueString (q_Protocols data))"] by (simp add: filters_def)
  have k11: "(''domain_enabled'' \<in> fst ` set (queryParamsOf data)) = (\<not> IsNull (q_DomainEnabled data))"
    using rows [of "(''domain_enabled'', IsNull (q_DomainEnabled data), ValueString (q_DomainEnabled data))"] by (simp add: filters_def)
  have k12: "(''ping_enabled'' \<in> fst ` set (queryParamsOf data)) = (\<not> IsNull (q_PingEnabled data))"
    using rows [of "(''ping_enabled'', IsNull (q_PingEnabled data), ValueString (q_PingEnabled data))"] by (simp add: filters_def)
  have k13: "(''gather_facts_enabled'' \<in> fst ` set (queryParamsOf data)) = (\<not> IsNull (q_GatherFactsEnabled data))"
    using rows [of "(''gather_facts_enabled'', IsNull (q_GatherFactsEnabled data), ValueString (q_GatherFactsEnabled data))"] by (simp add: filters_def)
  have k14: "(''change_secret_enabled'' \<in> fst ` set (queryParamsOf data)) = (\<not> IsNull (q_ChangeSecretEnabled data))"
    using rows [of "(''change_secret_enabled'', IsNull (q_ChangeSecretEnabled data), ValueString (q_ChangeSecretEnabled data))"] by (simp add: filters_def)
  have k15: "(''push_account_enabled'' \<in> fst ` set (queryParamsOf data)) = (\<not> IsNull (q_PushAccountEnabled data))"
    using rows [of "(''push_account_enabled'', IsNull (q_PushAccountEnabled data), ValueString (q_PushAccountEnabled data))"] by (simp add: filters_def)
  have k16: "(''verify_account_enabled'' \<in> fst ` set (queryParamsOf data)) = (\<not> IsNull (q_VerifyAccountEnabled data))"
    using rows [of "(''verify_account_enabled'', IsNull (q_VerifyAccountEnabled data), ValueString (q_VerifyAccountEnabled data))"] by (simp add: filters_def)
  have k17: "(''gather_accounts_enabled'' \<in> fst ` set (queryParamsOf data)) = (\<not> IsNull (q_GatherAccountsEnabled data))"
    using rows [of "(''gather_accounts_enabled'', IsNull (q_GatherAccountsEnabled data), ValueString (q_GatherAccountsEnabled data))"] by (simp add: filters_def)
  have k18: "(''search'' \<in> fst ` set (queryParamsOf data)) = (\<not> IsNull (q_Search data))"
    using rows [of "(''search'', IsNull (q_Search data), ValueString (q_Search data))"] by (simp add: filters_def)
  have k19: "(''order'' \<in> fst ` set (queryParamsOf data)) = (\<not> IsNull (q_Order data))"
    using rows [of "(''order'', IsNull (q_Order data), ValueString (q_Order data))"] by (simp add: filters_def)
  have k20: "(''limit'' \<in> fst ` set (queryParamsOf data)) = (\<not> IsNull (q_Limit data))"
    using rows [of "(''limit'', IsNull (q_Limit data), Sprintf_d (ValueInt64 (q_Limit data)))"] by (simp add: filters_def)
  have k21: "(''offset'' \<in> fst ` set (queryParamsOf data)) = (\<not> IsNull (q_Offset data))"
    using rows [of "(''offset'', IsNull (q_Offset data), Sprintf_d (ValueInt64 (q_Offset data)))"] by (simp add: filters_def)
  have C: "Encode (queryParamsOf data) =
     joinAmp (concat [
        if IsNull (q_Address data) then [] else [''address'' @ ''='' @ QueryEscape (ValueString (q_Address data))],
        if IsNull (q_Category data) then [] else [''category'' @ ''='' @ QueryEscape (ValueString (q_Category data))],
        if IsNull (q_ChangeSecretEnabled data) then [] else [''change_secret_enabled'' @ ''='' @ QueryEscape (ValueString (q_ChangeSecretEnabled data))],
        if IsNull (q_Domain data) then [] else [''domain'' @ ''='' @ QueryEscape (ValueString (q_Domain data))],
        if IsNull (q_DomainEnabled data) then [] else [''domain_enabled'' @ ''='' @ QueryEscape (ValueString (q_DomainEnabled data))],
        if IsNull (q_ExcludePlatform data) then [] else [''exclude_platform'' @ ''='' @ QueryEscape (ValueString (q_ExcludePlatform data))],
        if IsNull (q_GatherAccountsEnabled data) then [] else [''gather_accounts_enabled'' @ ''='' @ QueryEscape (ValueString (q_GatherAccountsEnabled data))],
        if IsNull (q_GatherFactsEnabled data) then [] else [''gather_facts_enabled'' @ ''='' @ QueryEscape (ValueString (q_GatherFactsEnabled data))],
        if IsNull (q_ID data) then [] else [''id'' @ ''='' @ QueryEscape (ValueString (q_ID data))],
        if IsNull (q_IsActive data) then [] else [''is_active'' @ ''='' @ QueryEscape (ValueString (q_IsActive data))],
        if IsNull (q_IsGateway data) then [] else [''is_gateway'' @ ''='' @ QueryEscape (ValueString (q_IsGateway data))],
        if IsNull (q_Limit data) then [] else [''limit'' @ ''='' @ QueryEscape (Sprintf_d (ValueInt64 (q_Limit data)))],
        if IsNull (q_Name data) then [] else [''name'' @ ''='' @ QueryEscape (ValueString (q_Name data))],
        if IsNull (q_Offset data) then [] else [''offset'' @ ''='' @ QueryEscape (Sprintf_d (ValueInt64 (q_Offset data)))],
        if IsNull (q_Order data) then [] else [''order'' @ ''='' @ QueryEscape (ValueString (q_Order data))],
        if IsNull (q_PingEnabled data) then [] else [''ping_enabled'' @ ''='' @ QueryEscape (ValueString (q_PingEnabled data))],
        if IsNull (q_Platform data) then [] else [''platform'' @ ''='' @ QueryEscape (ValueString (q_Platform data))],
        if IsNull (q_Protocols data) then [] else [''protocols'' @ ''='' @ QueryEscape (ValueString (q_Protocols data))],
        if IsNull (q_PushAccountEnabled data) then [] else [''push_account_enabled'' @ ''='' @ QueryEscape (ValueString (q_PushAccountEnabled data))],
        if IsNull (q_Search data) then [] else [''search'' @ ''='' @ QueryEscape (ValueString (q_Search data))],
        if IsNull (q_Type data) then [] else [''type'' @ ''='' @ QueryEscape (ValueString (q_Type data))],
        if IsNull (q_VerifyAccountEnabled data) then [] else [''verify_account_enabled'' @ ''='' @ QueryEscape (ValueString (q_VerifyAccountEnabled data))]])"
    unfolding eq Encode_rows sorted_filters by (simp add: QueryEscape_keys)
  have D: "queryParamsOf data = [(''name'', [v])]
          \<and> Encode (queryParamsOf data) = ''name='' @ QueryEscape v"
    if "q_Name data = Known v
          \<and> IsNull (q_ID data)
          \<and> IsNull (q_Address data)
          \<and> IsNull (q_IsActive data)
          \<and> IsNull (q_Type data)
          \<and> IsNull (q_Category data)
          \<and> IsNull (q_Platform data)
          \<and> IsNull (q_IsGateway data)
          \<and> IsNull (q_ExcludePlatform data)
          \<and> IsNull (q_Domain data)
          \<and> IsNull (q_Protocols data)
          \<and> IsNull (q_DomainEnabled data)
          \<and> IsNull (q_PingEnabled data)
          \<and> IsNull (q_GatherFactsEnabled data)
          \<and> IsNull (q_ChangeSecretEnabled data)
          \<and> IsNull (q_PushAccountEnabled data)
          \<and> IsNull (q_VerifyAccountEnabled data)
          \<and> IsNull (q_GatherAccountsEnabled data)
          \<and> IsNull (q_Search data)
          \<and> IsNull (q_Order data)
          \<and> IsNull (q_Limit data)
          \<and> IsNull (q_Offset data)"
    using that unfolding A by (simp add: Encode_def QueryEscape_keys)
  have E: "(\<forall>rq \<in> set (sent (hostSuggestions_Read w t (gd, data))).
         URL rq = BaseURL t @ ''/api/v1/assets/hosts/suggestions/'' @ ''?''
                    @ Encode (queryParamsOf data))"
    using hostSuggestions_Read_URL by blast
  from A k0 k1 k2 k3 k4 k5 k6 k7 k8 k9 k10 k11 k12 k13 k14 k15 k16 k17 k18 k19 k20 k21 C D E show ?thesis
    by blast
qed

lemma queryParamsOf_name_only:
  "queryParamsOf (noFilters\<lparr>q_Name := Known v\<rparr>) = [(''name'', [v])]"
  by (simp add: queryParamsOf_eq filters_def noFilters_def)

lemma hostSuggestions_Read_sent_ok:
  "sent (hostSuggestions_Read (answering r) t ([], data)) =
     [\<lparr>Method = ''GET'',
       URL = BaseURL t @ ''/api/v1/assets/hosts/suggestions/'' @ ''?'' @ Encode (queryParamsOf data),
       Header = [(''Authorization'', ''Bearer '' @ Token t)], ReqBody = None\<rparr>]"
  by (simp add: hostSuggestions_Read_def Let_def HasError_def answering_def NewRequest_def
        RoundTrip_def Header_Set_def split: sum.splits)

theorem query_filters_serialized_witness:
  "q_Name (noFilters\<lparr>q_Name := Known ''web 1''\<rparr>) = Known ''web 1''
   \<and> IsNull (q_Address (noFilters\<lparr>q_Name := Known ''web 1''\<rparr>))
   \<and> IsNull (q_Limit (noFilters\<lparr>q_Name := Known ''web 1''\<rparr>))
   \<and> queryParamsOf (noFilters\<lparr>q_Name := Known ''web 1''\<rparr>) = [(''name'', [''web 1''])]
   \<and> Encode (queryParamsOf (noFilters\<lparr>q_Name := Known ''web 1''\<rparr>)) = ''name=web+1''
   \<and> map URL (sent (hostSuggestions_Read (answering twoHosts) js
                      ([], noFilters\<lparr>q_Name := Known ''web 1''\<rparr>)))
       = [''https://js.example.com/api/v1/assets/hosts/suggestions/?name=web+1'']"
proof -
  let ?d = "noFilters\<lparr>q_Name := Known ''web 1''\<rparr>"
  have only: "q_Name ?d = Known ''web 1''
          \<and> IsNull (q_ID ?d)
          \<and> IsNull (q_Address ?d)
          \<and> IsNull (q_IsActive ?d)
          \<and> IsNull (q_Type ?d)
          \<and> IsNull (q_Category ?d)
          \<and> IsNull (q_Platform ?d)
          \<and> IsNull (q_IsGateway ?d)
          \<and> IsNull (q_ExcludePlatform ?d)
          \<and> IsNull (q_Domain ?d)
          \<and> IsNull (q_Protocols ?d)
          \<and> IsNull (q_DomainEnabled ?d)
          \<and> IsNull (q_PingEnabled ?d)
          \<and> IsNull (q_GatherFactsEnabled ?d)
          \<and> IsNull (q_ChangeSecretEnabled ?d)
          \<and> IsNull (q_PushAccountEnabled ?d)
          \<and> IsNull (q_VerifyAccountEnabled ?d)
          \<and> IsNull (q_GatherAccountsEnabled ?d)
          \<and> IsNull (q_Search ?d)
          \<and> IsNull (q_Order ?d)
          \<and> IsNull (q_Limit ?d)
          \<and> IsNull (q_Offset ?d)"
    by (simp add: noFilters_def)
  have esc: "QueryEscape ''web 1'' = ''web+1''"
    by (simp add: QueryEscape_def escapeByte_def shouldEscape_def)
  note all = query_filters_serialized [where data = ?d and v = "''web 1''"
         and w = "answering twoHosts" and t = js and gd = "[]"]
  note name_only = all [THEN conjunct2, THEN conjunct2, THEN conjunct2, THEN conjunct2, THEN conjunct2, THEN conjunct2, THEN conjunct2, THEN conjunct2, THEN conjunct2, THEN conjunct2, THEN conjunct2, THEN conjunct2, THEN conjunct2, THEN conjunct2, THEN conjunct2, THEN conjunct2, THEN conjunct2, THEN conjunct2, THEN conjunct2, THEN conjunct2, THEN conjunct2, THEN conjunct2, THEN conjunct2, THEN conjunct2, THEN conjunct1]
  have q: "queryParamsOf ?d = [(''name'', [''web 1''])]
         \<and> Encode (queryParamsOf ?d) = ''name='' @ QueryEscape ''web 1''"
    using name_only only by (rule mp)
  have q1: "queryParamsOf ?d = [(''name'', [''web 1''])]"
    using q by (rule conjunct1)
  have q2: "Encode (queryParamsOf ?d) = ''name=web+1''"
    using q [THEN conjunct2] esc by simp
  have u: "map URL (sent (hostSuggestions_Read (answering twoHosts) js ([], ?d)))
       = [''https://js.example.com/api/v1/assets/hosts/suggestions/?name=web+1'']"
    by (simp add: hostSuggestions_Read_sent_ok js_def q2)
  have n: "q_Name ?d = Known ''web 1'' \<and> IsNull (q_Address ?d) \<and> IsNull (q_Limit ?d)"
    by (simp add: noFilters_def)
  from n q1 q2 u show ?thesis
    by blast
qed

text \<open>
  C8, as stated, fails on a filter set to the empty string: it is not null, so it is
  added, and the query string carries \<^verbatim>\<open>name=\<close> with an empty value.
\<close>

theorem empty_name_filter_counterexample:
  "\<not> IsNull (q_Name (noFilters\<lparr>q_Name := Known []\<rparr>))
   \<and> queryParamsOf (noFilters\<lparr>q_Name := Known []\<rparr>) = [(''name'', [[]])]
   \<and> map URL (sent (hostSuggestions_Read (answering twoHosts) js
                      ([], noFilters\<lparr>q_Name := Known []\<rparr>)))
       = [''https://js.example.com/api/v1/assets/hosts/suggestions/?name='']"
  by (simp add: hostSuggestions_Read_sent_ok queryParamsOf_name_only js_def Encode_def
        QueryEscape_name) (simp add: QueryEscape_def)

section \<open>Query: results\<close>

lemma decodeAll_Inr:
  "decodeAll xs = Inr hs \<Longrightarrow> map decodeHost xs = map Inr hs"
  by (induction xs arbitrary: hs) (auto split: sum.splits)

lemma hostSuggestions_Read_sent:
  assumes "sent (hostSuggestions_Read w t (gd, data)) = [rq]"
  shows "\<not> HasError gd
       \<and> urlError w (BaseURL t @ ''/api/v1/assets/hosts/suggestions/'' @ ''?''
                       @ Encode (queryParamsOf data)) = None
       \<and> rq = \<lparr>Method = ''GET'',
                URL = BaseURL t @ ''/api/v1/assets/hosts/suggestions/'' @ ''?''
                        @ Encode (queryParamsOf data),
                Header = [(''Authorization'', ''Bearer '' @ Token t)], ReqBody = None\<rparr>"
  using assms
  by (auto simp: hostSuggestions_Read_def Let_def NewRequest_def RoundTrip_def Header_Set_def
        Append_Nil_noerr split: if_splits option.splits sum.splits)

lemma hostSuggestions_Read_run:
  assumes "\<not> HasError gd"
    and "urlError w (BaseURL t @ ''/api/v1/assets/hosts/suggestions/'' @ ''?''
                       @ Encode (queryParamsOf data)) = None"
    and "roundTrip w \<lparr>Method = ''GET'',
                URL = BaseURL t @ ''/api/v1/assets/hosts/suggestions/'' @ ''?''
                        @ Encode (queryParamsOf data),
                Header = [(''Authorization'', ''Bearer '' @ Token t)], ReqBody = None\<rparr> = Inr r"
    and "StatusCode r = 200"
    and "decodeHosts (BodyJSON r) = Inr hs"
  shows "diags (hostSuggestions_Read w t (gd, data)) = Append [] gd
       \<and> effect (hostSuggestions_Read w t (gd, data)) =
           StateSet (data\<lparr>q_TotalCount := Known (int (length hs)), q_Next := Null,
                          q_Previous := Null,
                          q_Results := map (\<lambda>result. \<lparr>hm_ID = Known (fst result),
                                                        hm_Name = Known (snd result)\<rparr>) hs\<rparr>)"
  using assms
  by (simp add: hostSuggestions_Read_def Let_def NewRequest_def RoundTrip_def Header_Set_def
        Append_Nil_noerr)

text \<open>
  C9. When the lookup has sent its request, the answer has status 200 and its body, a
  JSON array, decodes, the call reports no new diagnostic and writes a state in which
  the total count is the length of the array and the results list has one entry per
  array element, in order, holding the identifier and the name decoded from that element.
\<close>

theorem hostSuggestions_count_and_results:
  assumes sent: "sent (hostSuggestions_Read w t (gd, data)) = [rq]"
    and resp: "roundTrip w rq = Inr r"
    and ok: "StatusCode r = 200"
    and body: "BodyJSON r = Inr (JArr xs)"
    and dec: "decodeHosts (BodyJSON r) = Inr hs"
  shows "\<exists>m. effect (hostSuggestions_Read w t (gd, data)) = StateSet m
           \<and> \<not> HasError (diags (hostSuggestions_Read w t (gd, data)))
           \<and> q_TotalCount m = Known (int (length xs))
           \<and> length (q_Results m) = length xs
           \<and> (\<forall>i < length xs.
                 decodeHost (xs ! i) = Inr (hs ! i)
                 \<and> q_Results m ! i = \<lparr>hm_ID = Known (fst (hs ! i)), hm_Name = Known (snd (hs ! i))\<rparr>)"
proof -
  note s = hostSuggestions_Read_sent [OF sent]
  from s have gd: "\<not> HasError gd" and u: "urlError w (BaseURL t @ ''/api/v1/assets/hosts/suggestions/'' @ ''?''
                       @ Encode (queryParamsOf data)) = None"
    by blast+
  from s resp have r: "roundTrip w \<lparr>Method = ''GET'',
                URL = BaseURL t @ ''/api/v1/assets/hosts/suggestions/'' @ ''?''
                        @ Encode (queryParamsOf data),
                Header = [(''Authorization'', ''Bearer '' @ Token t)], ReqBody = None\<rparr> = Inr r"
    by simp
  note run = hostSuggestions_Read_run [OF gd u r ok dec]
  from dec body have "decodeAll xs = Inr hs"
    by (simp add: decodeHosts_def)
  then have m: "map decodeHost xs = map Inr hs"
    by (rule decodeAll_Inr)
  then have len: "length hs = length xs"
    by (metis length_map)
  have nth: "decodeHost (xs ! i) = Inr (hs ! i)" if "i < length xs" for i
    using that m len by (metis nth_map)
  from run gd len nth show ?thesis
    by (simp add: Append_Nil_noerr)
qed

theorem hostSuggestions_count_and_results_witness:
  "effect (hostSuggestions_Read (answering twoHosts) js ([], noFilters))
     = StateSet (noFilters\<lparr>q_TotalCount := Known 2,
                   q_Results := [\<lparr>hm_ID = Known ''h-1'', hm_Name = Known ''web-1''\<rparr>,
                                 \<lparr>hm_ID = Known ''h-2'', hm_Name = Known ''db-1''\<rparr>]\<rparr>)"
proof -
  let ?rq = "\<lparr>Method = ''GET'',
       URL = BaseURL js @ ''/api/v1/assets/hosts/suggestions/'' @ ''?'' @ Encode (queryParamsOf noFilters),
       Header = [(''Authorization'', ''Bearer '' @ Token js)], ReqBody = None\<rparr>"
  have sent: "sent (hostSuggestions_Read (answering twoHosts) js ([], noFilters)) = [?rq]"
    by (rule hostSuggestions_Read_sent_ok)
  have resp: "roundTrip (answering twoHosts) ?rq = Inr twoHosts"
    by (simp add: answering_def)
  have ok: "StatusCode twoHosts = 200"
    by (simp add: twoHosts_def)
  have body: "BodyJSON twoHosts = Inr (JArr [JObj [(''id'', JStr ''h-1''), (''name'', JStr ''web-1''),
                                 (''address'', JStr ''10.0.0.5'')],
                           JObj [(''name'', JStr ''db-1''), (''ID'', JStr ''h-2'')]])"
    by (simp add: twoHosts_def)
  have dec: "decodeHosts (BodyJSON twoHosts) = Inr [(''h-1'', ''web-1''), (''h-2'', ''db-1'')]"
    by (simp add: twoHosts_def decodeHosts_def decodeHost_def toLowerASCII_def)
  from hostSuggestions_count_and_results [OF sent resp ok body dec]
  obtain m where m: "effect (hostSuggestions_Read (answering twoHosts) js ([], noFilters)) = StateSet m"
    by blast
  have "effect (hostSuggestions_Read (answering twoHosts) js ([], noFilters))
     = StateSet (noFilters\<lparr>q_TotalCount := Known 2, q_Next := Null, q_Previous := Null,
                   q_Results := [\<lparr>hm_ID = Known ''h-1'', hm_Name = Known ''web-1''\<rparr>,
                                 \<lparr>hm_ID = Known ''h-2'', hm_Name = Known ''db-1''\<rparr>]\<rparr>)"
    using m dec
    by (simp add: hostSuggestions_Read_def Let_def HasError_def answering_def NewRequest_def
          RoundTrip_def Header_Set_def ok)
  then show ?thesis
    by (simp add: noFilters_def)
qed




section \<open>Provider: Configure\<close>










section \<open>Update\<close>

text \<open>
  C6. An Update call on a Host or on an Account sends no HTTP request, produces no
  diagnostic at all (so no error), and leaves the state as it was before the call.
\<close>

theorem Update_is_noop:
  "sent (host_Update w t hreq) = [] \<and> diags (host_Update w t hreq) = []
   \<and> \<not> HasError (diags (host_Update w t hreq))
   \<and> state_after prior_h (effect (host_Update w t hreq)) = prior_h
   \<and> sent (account_Update w t areq) = [] \<and> diags (account_Update w t areq) = []
   \<and> \<not> HasError (diags (account_Update w t areq))
   \<and> state_after prior_a (effect (account_Update w t areq)) = prior_a"
  by (simp add: host_Update_def account_Update_def HasError_def)

theorem Update_is_noop_witness:
  "sent (host_Update \<lparr>urlError = (\<lambda>u. None), roundTrip = (\<lambda>r. Inl ''down'')\<rparr>
           \<lparr>Token = ''tok'', BaseURL = ''http://js''\<rparr>
           ([], \<lparr>ID = Known ''h1'', Name = Known ''web-2'', IP = Known ''10.0.0.5'',
                 Platform = Known ''Linux'', NodesDisplay = Known [Known ''/Default''],
                 Protocols = Known []\<rparr>)) = []
   \<and> state_after None
        (effect (account_Update \<lparr>urlError = (\<lambda>u. None), roundTrip = (\<lambda>r. Inl ''down'')\<rparr>
           \<lparr>Token = ''tok'', BaseURL = ''http://js''\<rparr>
           ([], \<lparr>acc_Name = Known ''a'', acc_Username = Known ''root'',
                 acc_Privileged = Known True, acc_Is_active = Known True,
                 acc_Assets = Known []\<rparr>))) = None"
  using Update_is_noop by simp


end
